theory Spec2Isabelle
  imports Main "HOL-Library.Word"
begin

unbundle bit_operations_syntax

section \<open>The authorization delegate (gio/gdbusauthobserver.c)\<close>

text \<open>
  A \<^verbatim>\<open>GIOStream*\<close> is an abstract identity, a \<^verbatim>\<open>GCredentials*\<close> may be
  \<^verbatim>\<open>NULL\<close>. A handler connected to the signal
  \<^verbatim>\<open>authorize-authenticated-peer\<close> is a function of both returning a
  \<^verbatim>\<open>gboolean\<close>.
\<close>

type_synonym GIOStream = nat
type_synonym GCredentials = "nat option"
type_synonym authorize_handler = "GIOStream \<Rightarrow> GCredentials \<Rightarrow> bool"

text \<open>
  The observer instance has no fields of its own; what the signal machinery keeps
  for it are the handlers connected with \<^verbatim>\<open>g_signal_connect\<close> and those
  connected with \<^verbatim>\<open>g_signal_connect_after\<close>, each in connection order.
\<close>

record GDBusAuthObserver =
  connected :: "authorize_handler list"
  connected_after :: "authorize_handler list"

definition g_dbus_auth_observer_new :: GDBusAuthObserver where
  "g_dbus_auth_observer_new = \<lparr>connected = [], connected_after = []\<rparr>"

definition g_dbus_auth_observer_authorize_authenticated_peer_real :: authorize_handler where
  "g_dbus_auth_observer_authorize_authenticated_peer_real stream credentials = True"

text \<open>
  Modelled from the spec: the accumulator \<^verbatim>\<open>_g_signal_accumulator_false_handled\<close>
  and \<^verbatim>\<open>g_signal_emit\<close> are not among the sources. The spec's contract is a single
  synchronous decision point whose default is allow and which rejects as soon as a handler
  returns deny. The accumulator stores the handler's return value as the signal's return
  value and continues the emission exactly when that value is \<^verbatim>\<open>TRUE\<close>; the first
  component of the result is \<^verbatim>\<open>continue_emission\<close>, the second the new
  \<^verbatim>\<open>return_accu\<close>.
\<close>

definition g_signal_accumulator_false_handled :: "bool \<Rightarrow> bool \<Rightarrow> bool \<times> bool" where
  "g_signal_accumulator_false_handled return_accu handler_return =
     (let signal_return = handler_return;
          return_accu = signal_return;
          continue_emission = signal_return
      in (continue_emission, return_accu))"

text \<open>
  Modelled from the spec: the emission runs the closures one after the other and stops
  when the accumulator says so; the value left in the accumulator is the emission's
  return value.
\<close>

fun emit_closures :: "authorize_handler list \<Rightarrow> GIOStream \<Rightarrow> GCredentials \<Rightarrow> bool \<Rightarrow> bool" where
  "emit_closures [] stream credentials return_accu = return_accu"
| "emit_closures (h # hs) stream credentials return_accu =
     (case g_signal_accumulator_false_handled return_accu (h stream credentials) of
        (continue_emission, accu) \<Rightarrow>
          if continue_emission then emit_closures hs stream credentials accu else accu)"

text \<open>
  Modelled from the spec: the signal is registered \<^verbatim>\<open>G_SIGNAL_RUN_LAST\<close> with the
  class handler at \<^verbatim>\<open>authorize_authenticated_peer\<close>, so the emission order is the
  connected handlers, the class handler, the handlers connected after.
\<close>

definition g_signal_emit :: "GDBusAuthObserver \<Rightarrow> GIOStream \<Rightarrow> GCredentials \<Rightarrow> bool \<Rightarrow> bool" where
  "g_signal_emit observer stream credentials return_value =
     emit_closures
       (connected observer @ [g_dbus_auth_observer_authorize_authenticated_peer_real]
          @ connected_after observer)
       stream credentials return_value"

definition g_dbus_auth_observer_authorize_authenticated_peer ::
    "GDBusAuthObserver \<Rightarrow> GIOStream \<Rightarrow> GCredentials \<Rightarrow> bool" where
  "g_dbus_auth_observer_authorize_authenticated_peer observer stream credentials =
     (let denied = False;
          denied = g_signal_emit observer stream credentials denied
      in denied)"

section \<open>Values and the default transform (gobject/gbinding.c)\<close>

text \<open>
  Modelled from the spec: the value container of \<^verbatim>\<open>gvalue.c\<close> is not among the
  sources; a property holds a typed value. A \<^verbatim>\<open>GType\<close> is an identifier. A
  \<^verbatim>\<open>GValue\<close> carries its type and a payload; the payload union is an integer
  here, and \<^verbatim>\<open>g_value_init\<close> zeroes it.
\<close>

type_synonym GType = nat

record GValue =
  g_type :: GType
  payload :: int

definition g_value_init :: "GType \<Rightarrow> GValue" where
  "g_value_init t = \<lparr>g_type = t, payload = 0\<rparr>"

text \<open>
  The type system's queries and the value transformation table of
  \<^verbatim>\<open>gtype.c\<close> and \<^verbatim>\<open>gvalue.c\<close> are parameters.
  \<^verbatim>\<open>g_value_transform\<close> returns its success flag and the destination value.
\<close>

record type_system =
  g_type_is_a :: "GType \<Rightarrow> GType \<Rightarrow> bool"
  g_value_type_compatible :: "GType \<Rightarrow> GType \<Rightarrow> bool"
  g_value_type_transformable :: "GType \<Rightarrow> GType \<Rightarrow> bool"
  g_value_transform :: "GValue \<Rightarrow> GValue \<Rightarrow> bool \<times> GValue"

text \<open>
  Modelled from the spec: the direct copy of a value. \<^verbatim>\<open>g_value_copy\<close> keeps the
  destination's type and copies the payload.
\<close>

definition g_value_copy :: "GValue \<Rightarrow> GValue \<Rightarrow> GValue" where
  "g_value_copy src_value dest_value = dest_value\<lparr>payload := payload src_value\<rparr>"

text \<open>
  \<^verbatim>\<open>default_transform\<close>: the result is the returned \<^verbatim>\<open>gboolean\<close> and the contents
  of \<^verbatim>\<open>value_b\<close> on return. The branch structure is the source's: the warning and
  \<^verbatim>\<open>return FALSE\<close> sit inside the \<^verbatim>\<open>g_value_type_transformable\<close> branch, and
  where no branch is taken control falls to the label \<^verbatim>\<open>done\<close>.
\<close>

definition default_transform :: "type_system \<Rightarrow> GValue \<Rightarrow> GValue \<Rightarrow> bool \<times> GValue" where
  "default_transform ts value_a value_b =
     (if \<not> g_type_is_a ts (g_type value_a) (g_type value_b) then
        if g_value_type_compatible ts (g_type value_a) (g_type value_b) then
          (True, g_value_copy value_a value_b)
        else if g_value_type_transformable ts (g_type value_a) (g_type value_b) then
          (case g_value_transform ts value_a value_b of
             (True, value_b') \<Rightarrow> (True, value_b')
           | (False, value_b') \<Rightarrow> (False, value_b'))
        else (True, value_b)
      else (True, g_value_copy value_a value_b))"

text \<open>
  A \<^verbatim>\<open>GBindingTransformFunc\<close> receives the two values and the user data and returns
  its success flag with the contents of the second value.
\<close>

type_synonym gpointer = "nat option"
type_synonym GBindingTransformFunc = "GValue \<Rightarrow> GValue \<Rightarrow> gpointer \<Rightarrow> bool \<times> GValue"

definition default_transform_to :: "type_system \<Rightarrow> GBindingTransformFunc" where
  "default_transform_to ts value_a value_b user_data = default_transform ts value_a value_b"

definition default_transform_from :: "type_system \<Rightarrow> GBindingTransformFunc" where
  "default_transform_from ts value_a value_b user_data = default_transform ts value_a value_b"

text \<open>A type system in which a type is only itself and nothing is convertible.\<close>

definition strict_types :: type_system where
  "strict_types =
     \<lparr>g_type_is_a = (\<lambda>a b. a = b),
      g_value_type_compatible = (\<lambda>a b. a = b),
      g_value_type_transformable = (\<lambda>a b. a = b),
      g_value_transform = (\<lambda>a b. (False, b))\<rparr>"

section \<open>Objects, properties, notification and destruction\<close>

text \<open>
  A \<^verbatim>\<open>GObject*\<close>, a \<^verbatim>\<open>GBinding*\<close> and a \<^verbatim>\<open>GList*\<close> are addresses;
  where a pointer may be \<^verbatim>\<open>NULL\<close> its type is an option.
\<close>

type_synonym obj_ref = nat
type_synonym binding_ref = nat
type_synonym list_ref = nat

text \<open>
  The flag bits of \<^verbatim>\<open>gparam.h\<close> and \<^verbatim>\<open>gbinding.h\<close>, which are not among the
  sources: \<^verbatim>\<open>1 << 0\<close>, \<^verbatim>\<open>1 << 1\<close>, \<^verbatim>\<open>1 << 3\<close>, \<^verbatim>\<open>1 << 5\<close> for the
  parameter flags, \<^verbatim>\<open>0\<close> and \<^verbatim>\<open>1 << 0\<close> for the binding flags.
\<close>

definition G_PARAM_READABLE :: "32 word" where
  "G_PARAM_READABLE = push_bit 0 1"

definition G_PARAM_WRITABLE :: "32 word" where
  "G_PARAM_WRITABLE = push_bit 1 1"

definition G_PARAM_CONSTRUCT_ONLY :: "32 word" where
  "G_PARAM_CONSTRUCT_ONLY = push_bit 3 1"

definition G_PARAM_STATIC_NAME :: "32 word" where
  "G_PARAM_STATIC_NAME = push_bit 5 1"

definition G_BINDING_DEFAULT :: "32 word" where
  "G_BINDING_DEFAULT = 0"

definition G_BINDING_BIDIRECTIONAL :: "32 word" where
  "G_BINDING_BIDIRECTIONAL = push_bit 0 1"

text \<open>
  Modelled from the spec: a property descriptor has a name, flags and a declared value
  type, and a candidate value is coerced against the property's declared constraints.
  The coercion is the \<^verbatim>\<open>value_validate\<close> function of the descriptor's class, which
  maps a payload to the conforming one.
\<close>

record GParamSpec =
  pspec_name :: string
  pspec_flags :: "32 word"
  value_type :: GType
  value_validate :: "int \<Rightarrow> int"

definition g_param_value_validate :: "GParamSpec \<Rightarrow> GValue \<Rightarrow> GValue" where
  "g_param_value_validate pspec v = v\<lparr>payload := value_validate pspec (payload v)\<rparr>"

text \<open>
  Modelled from the spec: names are interned and stable. Interned strings are compared by
  address; two interned strings are equal exactly when their characters are.
\<close>

definition g_intern_string :: "string \<Rightarrow> string" where
  "g_intern_string s = s"

definition g_intern_static_string :: "string \<Rightarrow> string" where
  "g_intern_static_string s = s"

text \<open>
  A handler connected to \<^verbatim>\<open>notify\<close>: the id \<^verbatim>\<open>g_signal_connect\<close> returned, the
  callback and its data.
\<close>

datatype notify_callback = On_source_notify | On_target_notify

record handler =
  handler_id :: nat
  callback :: notify_callback
  handler_data :: binding_ref

record GList =
  list_data :: binding_ref
  list_next :: "list_ref option"
  list_prev :: "list_ref option"

text \<open>
  The instance structure. \<^verbatim>\<open>ref_count\<close> is the one of \<^verbatim>\<open>parent_instance\<close>; the
  destroy notification is the address of a function, its calls are recorded in the state.
\<close>

record GBinding =
  ref_count :: nat
  source :: "obj_ref option"
  target :: "obj_ref option"
  source_property :: string
  target_property :: string
  source_pspec :: "GParamSpec option"
  target_pspec :: "GParamSpec option"
  transform_s2t :: "GBindingTransformFunc option"
  transform_t2s :: "GBindingTransformFunc option"
  flags :: "32 word"
  source_notify :: nat
  target_notify :: nat
  transform_data :: gpointer
  notify :: "nat option"
  is_frozen :: bool

text \<open>
  The store. An object is live when it has a class, which is the list of its installed
  properties; what the object system keeps for an object (property values, connected
  \<^verbatim>\<open>notify\<close> handlers in connection order, weak references with callback
  \<^verbatim>\<open>weak_unbind\<close> and their data, the datum under the quark \<^verbatim>\<open>g-binding\<close>) is one
  table each. Bindings and list cells are allocated at the next free address.
  \<^verbatim>\<open>property_writes\<close> records every store into a property,
  \<^verbatim>\<open>destroy_notified\<close> every call of a destroy notification with its argument.
\<close>

record state =
  object_class :: "obj_ref \<rightharpoonup> GParamSpec list"
  property_value :: "obj_ref \<Rightarrow> string \<Rightarrow> int"
  notify_handlers :: "obj_ref \<Rightarrow> handler list"
  weak_refs :: "obj_ref \<Rightarrow> binding_ref list"
  qdata_gbinding :: "obj_ref \<Rightarrow> list_ref option"
  bindings :: "binding_ref \<rightharpoonup> GBinding"
  glist_cells :: "list_ref \<rightharpoonup> GList"
  next_binding :: binding_ref
  next_handler_id :: nat
  next_list_ref :: list_ref
  property_writes :: "(obj_ref \<times> string \<times> int) list"
  destroy_notified :: "(nat \<times> gpointer) list"

definition G_IS_OBJECT :: "state \<Rightarrow> obj_ref option \<Rightarrow> bool" where
  "G_IS_OBJECT st object =
     (case object of None \<Rightarrow> False | Some ob \<Rightarrow> object_class st ob \<noteq> None)"

text \<open>
  Modelled from the spec: \<^verbatim>\<open>g_object_class_find_property\<close> is not among the sources;
  the spec has the existence of a property validated by name on the object's type.
\<close>

definition g_object_class_find_property :: "state \<Rightarrow> obj_ref option \<Rightarrow> string \<Rightarrow> GParamSpec option" where
  "g_object_class_find_property st object property_name =
     (case object of None \<Rightarrow> None
      | Some ob \<Rightarrow>
          (case object_class st ob of None \<Rightarrow> None
           | Some props \<Rightarrow> find (\<lambda>pspec. pspec_name pspec = property_name) props))"

text \<open>
  Modelled from the spec: the property store's \<^verbatim>\<open>get\<close>. A call on something that is
  not an object, or for a name the class does not have, leaves the value as it was
  initialised.
\<close>

definition g_object_get_property :: "state \<Rightarrow> obj_ref option \<Rightarrow> string \<Rightarrow> GValue \<Rightarrow> GValue" where
  "g_object_get_property st object property_name v =
     (case object of None \<Rightarrow> v
      | Some ob \<Rightarrow>
          (case g_object_class_find_property st object property_name of None \<Rightarrow> v
           | Some pspec \<Rightarrow> v\<lparr>payload := property_value st ob (pspec_name pspec)\<rparr>))"

text \<open>
  Modelled from the spec: subscription and its cancellation. \<^verbatim>\<open>g_signal_connect\<close>
  returns a fresh non-zero id, or 0 when the instance is not an object;
  \<^verbatim>\<open>g_signal_handler_disconnect\<close> removes the handler with the given id.
\<close>

definition g_signal_connect :: "state \<Rightarrow> obj_ref option \<Rightarrow> notify_callback \<Rightarrow> binding_ref \<Rightarrow> nat \<times> state" where
  "g_signal_connect st instance c_handler gdata =
     (case instance of None \<Rightarrow> (0, st)
      | Some ob \<Rightarrow>
          if object_class st ob = None then (0, st)
          else
            (let hid = next_handler_id st;
                 h = \<lparr>handler_id = hid, callback = c_handler, handler_data = gdata\<rparr>
             in (hid, st\<lparr>notify_handlers := (notify_handlers st)(ob := notify_handlers st ob @ [h]),
                         next_handler_id := Suc hid\<rparr>)))"

definition g_signal_handler_disconnect :: "state \<Rightarrow> obj_ref option \<Rightarrow> nat \<Rightarrow> state" where
  "g_signal_handler_disconnect st instance hid =
     (case instance of None \<Rightarrow> st
      | Some ob \<Rightarrow>
          st\<lparr>notify_handlers :=
               (notify_handlers st)(ob := filter (\<lambda>h. handler_id h \<noteq> hid) (notify_handlers st ob))\<rparr>)"

text \<open>
  Modelled from the spec: the destruction hook. A weak reference is added at the end of
  the object's list; \<^verbatim>\<open>g_object_weak_unref\<close> removes one matching entry.
\<close>

definition g_object_weak_ref :: "state \<Rightarrow> obj_ref option \<Rightarrow> binding_ref \<Rightarrow> state" where
  "g_object_weak_ref st object gdata =
     (case object of None \<Rightarrow> st
      | Some ob \<Rightarrow> st\<lparr>weak_refs := (weak_refs st)(ob := weak_refs st ob @ [gdata])\<rparr>)"

definition g_object_weak_unref :: "state \<Rightarrow> obj_ref option \<Rightarrow> binding_ref \<Rightarrow> state" where
  "g_object_weak_unref st object gdata =
     (case object of None \<Rightarrow> st
      | Some ob \<Rightarrow> st\<lparr>weak_refs := (weak_refs st)(ob := remove1 gdata (weak_refs st ob))\<rparr>)"

text \<open>
  Modelled from the spec: the per-object side table, kept as the object's datum under the
  quark \<^verbatim>\<open>g-binding\<close>. The datum of something that is not an object is \<^verbatim>\<open>NULL\<close>
  and cannot be set.
\<close>

definition g_object_get_qdata :: "state \<Rightarrow> obj_ref option \<Rightarrow> list_ref option" where
  "g_object_get_qdata st object =
     (case object of None \<Rightarrow> None | Some ob \<Rightarrow> qdata_gbinding st ob)"

definition g_object_set_qdata :: "state \<Rightarrow> obj_ref option \<Rightarrow> list_ref option \<Rightarrow> state" where
  "g_object_set_qdata st object d =
     (case object of None \<Rightarrow> st
      | Some ob \<Rightarrow> st\<lparr>qdata_gbinding := (qdata_gbinding st)(ob := d)\<rparr>)"

section \<open>Doubly linked lists in the store\<close>

text \<open>
  Modelled from the spec: \<^verbatim>\<open>g_list_prepend\<close> and \<^verbatim>\<open>g_list_remove\<close> of
  \<^verbatim>\<open>glist.c\<close> are not among the sources; the registry entry of an object is a doubly
  linked list of cells. Prepending allocates a cell, links it in front of the given cell
  and returns the new cell. Reading or writing a cell that is not allocated has no defined
  result, which is \<^const>\<open>None\<close>.
\<close>

definition g_list_prepend :: "state \<Rightarrow> list_ref option \<Rightarrow> binding_ref \<Rightarrow> (list_ref option \<times> state) option" where
  "g_list_prepend st list d =
     (let new_list = next_list_ref st in
      case list of
        None \<Rightarrow>
          Some (Some new_list,
            st\<lparr>glist_cells := (glist_cells st)(new_list \<mapsto>
                   \<lparr>list_data = d, list_next = None, list_prev = None\<rparr>),
               next_list_ref := Suc new_list\<rparr>)
      | Some l \<Rightarrow>
          (case glist_cells st l of None \<Rightarrow> None
           | Some cell \<Rightarrow>
               (let cells1 = (glist_cells st)(new_list \<mapsto>
                      \<lparr>list_data = d, list_next = Some l, list_prev = list_prev cell\<rparr>)
                in case list_prev cell of
                     None \<Rightarrow>
                       Some (Some new_list,
                         st\<lparr>glist_cells := cells1(l \<mapsto> cell\<lparr>list_prev := Some new_list\<rparr>),
                            next_list_ref := Suc new_list\<rparr>)
                   | Some p \<Rightarrow>
                       (case cells1 p of None \<Rightarrow> None
                        | Some pcell \<Rightarrow>
                            Some (Some new_list,
                              st\<lparr>glist_cells :=
                                    (cells1(p \<mapsto> pcell\<lparr>list_next := Some new_list\<rparr>))
                                      (l \<mapsto> cell\<lparr>list_prev := Some new_list\<rparr>),
                                 next_list_ref := Suc new_list\<rparr>)))))"

text \<open>
  The loop of \<^verbatim>\<open>g_list_remove\<close> walks the \<^verbatim>\<open>next\<close> pointers to the first cell
  holding the datum; it yields that cell, or \<^verbatim>\<open>NULL\<close> at the end of the list. On a
  cyclic list without the datum it does not return.
\<close>

partial_function (option) g_list_find_cell ::
    "(list_ref \<rightharpoonup> GList) \<Rightarrow> list_ref option \<Rightarrow> binding_ref \<Rightarrow> list_ref option option" where
  "g_list_find_cell cells tmp d =
     (case tmp of None \<Rightarrow> Some None
      | Some t \<Rightarrow>
          (case cells t of None \<Rightarrow> None
           | Some cell \<Rightarrow>
               if list_data cell \<noteq> d then g_list_find_cell cells (list_next cell) d
               else Some (Some t)))"

text \<open>Unlinking the found cell, moving the head if it was the head, and freeing the cell.\<close>

definition g_list_remove :: "state \<Rightarrow> list_ref option \<Rightarrow> binding_ref \<Rightarrow> (list_ref option \<times> state) option" where
  "g_list_remove st list d =
     (case g_list_find_cell (glist_cells st) list d of
        None \<Rightarrow> None
      | Some None \<Rightarrow> Some (list, st)
      | Some (Some t) \<Rightarrow>
          (case glist_cells st t of None \<Rightarrow> None
           | Some cell \<Rightarrow>
               (case (case list_prev cell of None \<Rightarrow> Some (glist_cells st)
                      | Some p \<Rightarrow>
                          (case glist_cells st p of None \<Rightarrow> None
                           | Some pcell \<Rightarrow>
                               Some ((glist_cells st)(p \<mapsto> pcell\<lparr>list_next := list_next cell\<rparr>)))) of
                  None \<Rightarrow> None
                | Some cells1 \<Rightarrow>
                    (case (case list_next cell of None \<Rightarrow> Some cells1
                           | Some n \<Rightarrow>
                               (case cells1 n of None \<Rightarrow> None
                                | Some ncell \<Rightarrow>
                                    Some (cells1(n \<mapsto> ncell\<lparr>list_prev := list_prev cell\<rparr>)))) of
                       None \<Rightarrow> None
                     | Some cells2 \<Rightarrow>
                         Some (if list = Some t then list_next cell else list,
                               st\<lparr>glist_cells := cells2(t := None)\<rparr>)))))"

text \<open>
  The members of a registry entry: the data of the cells reached from the entry's head
  along the \<^verbatim>\<open>next\<close> pointers. There is no result when a pointer on the way leads to
  a cell that is not allocated.
\<close>

partial_function (option) g_list_members ::
    "(list_ref \<rightharpoonup> GList) \<Rightarrow> list_ref option \<Rightarrow> binding_ref list option" where
  "g_list_members cells list =
     (case list of None \<Rightarrow> Some []
      | Some l \<Rightarrow>
          (case cells l of None \<Rightarrow> None
           | Some cell \<Rightarrow>
               Option.bind (g_list_members cells (list_next cell))
                 (\<lambda>ds. Some (list_data cell # ds))))"

declare g_list_find_cell.simps [code]
declare g_list_members.simps [code]

definition registry_entry :: "state \<Rightarrow> obj_ref \<Rightarrow> binding_ref list option" where
  "registry_entry st ob = g_list_members (glist_cells st) (g_object_get_qdata st (Some ob))"

section \<open>The binding (gobject/gbinding.c)\<close>

definition add_binding_qdata :: "state \<Rightarrow> obj_ref option \<Rightarrow> binding_ref \<Rightarrow> state option" where
  "add_binding_qdata st gobject binding =
     (let bs = g_object_get_qdata st gobject in
      if bs = None then
        (case g_list_prepend st None binding of None \<Rightarrow> None
         | Some (bs, st1) \<Rightarrow> Some (g_object_set_qdata st1 gobject bs))
      else
        (case g_list_prepend st bs binding of None \<Rightarrow> None
         | Some (bs, st1) \<Rightarrow> Some st1))"

definition remove_binding_qdata :: "state \<Rightarrow> obj_ref option \<Rightarrow> binding_ref \<Rightarrow> state option" where
  "remove_binding_qdata st gobject binding =
     (let bs = g_object_get_qdata st gobject in
      case g_list_remove st bs binding of None \<Rightarrow> None
      | Some (bs, st1) \<Rightarrow> Some st1)"

text \<open>Assignment to fields of the instance at an address.\<close>

definition binding_update :: "state \<Rightarrow> binding_ref \<Rightarrow> (GBinding \<Rightarrow> GBinding) \<Rightarrow> state" where
  "binding_update st binding f =
     (case bindings st binding of None \<Rightarrow> st
      | Some b \<Rightarrow> st\<lparr>bindings := (bindings st)(binding \<mapsto> f b)\<rparr>)"

text \<open>
  \<^verbatim>\<open>g_binding_finalize\<close>. Using an instance that has been freed has no defined result.
\<close>

definition g_binding_finalize :: "state \<Rightarrow> binding_ref \<Rightarrow> state option" where
  "g_binding_finalize st binding =
     (case bindings st binding of None \<Rightarrow> None
      | Some b \<Rightarrow>
          (let st1 = (case notify b of None \<Rightarrow> st
                      | Some fn \<Rightarrow>
                          binding_update
                            (st\<lparr>destroy_notified := destroy_notified st @ [(fn, transform_data b)]\<rparr>)
                            binding (\<lambda>b. b\<lparr>transform_data := None, notify := None\<rparr>))
           in case (if source b \<noteq> None then
                      remove_binding_qdata
                        (g_object_weak_unref
                           (if source_notify b \<noteq> 0
                            then g_signal_handler_disconnect st1 (source b) (source_notify b)
                            else st1)
                           (source b) binding)
                        (source b) binding
                    else Some st1) of
                None \<Rightarrow> None
              | Some st2 \<Rightarrow>
                  (if target b \<noteq> None then
                     remove_binding_qdata
                       (g_object_weak_unref
                          (if target_notify b \<noteq> 0
                           then g_signal_handler_disconnect st2 (target b) (target_notify b)
                           else st2)
                          (target b) binding)
                       (target b) binding
                   else Some st2)))"

text \<open>
  Modelled from the spec: a Link is destroyed when its last holder releases it.
  \<^verbatim>\<open>g_object_ref\<close> and \<^verbatim>\<open>g_object_unref\<close> on a binding count the
  references; dropping the last one finalizes the instance and frees it.
\<close>

definition g_object_ref :: "state \<Rightarrow> binding_ref \<Rightarrow> state" where
  "g_object_ref st binding = binding_update st binding (\<lambda>b. b\<lparr>ref_count := Suc (ref_count b)\<rparr>)"

definition g_object_unref :: "state \<Rightarrow> binding_ref \<Rightarrow> state option" where
  "g_object_unref st binding =
     (case bindings st binding of None \<Rightarrow> None
      | Some b \<Rightarrow>
          if 1 < ref_count b then
            Some (binding_update st binding (\<lambda>b. b\<lparr>ref_count := ref_count b - 1\<rparr>))
          else
            (case g_binding_finalize st binding of None \<Rightarrow> None
             | Some st1 \<Rightarrow> Some (st1\<lparr>bindings := (bindings st1)(binding := None)\<rparr>)))"

definition weak_unbind :: "state \<Rightarrow> binding_ref \<Rightarrow> obj_ref \<Rightarrow> state option" where
  "weak_unbind st binding where_the_object_was =
     (case bindings st binding of None \<Rightarrow> None
      | Some b \<Rightarrow>
          (case (if source b = Some where_the_object_was then
                   Some (binding_update st binding (\<lambda>b. b\<lparr>source := None\<rparr>))
                 else
                   (case remove_binding_qdata
                           (g_object_weak_unref
                              (if source_notify b \<noteq> 0
                               then g_signal_handler_disconnect st (source b) (source_notify b)
                               else st)
                              (source b) binding)
                           (source b) binding of
                      None \<Rightarrow> None
                    | Some st1 \<Rightarrow> Some (binding_update st1 binding (\<lambda>b. b\<lparr>source := None\<rparr>)))) of
             None \<Rightarrow> None
           | Some st2 \<Rightarrow>
               (case (if target b = Some where_the_object_was then
                        Some (binding_update st2 binding (\<lambda>b. b\<lparr>target := None\<rparr>))
                      else
                        (case remove_binding_qdata
                                (g_object_weak_unref
                                   (if target_notify b \<noteq> 0
                                    then g_signal_handler_disconnect st2 (target b) (target_notify b)
                                    else st2)
                                   (target b) binding)
                                (target b) binding of
                           None \<Rightarrow> None
                         | Some st3 \<Rightarrow>
                             Some (binding_update st3 binding (\<lambda>b. b\<lparr>target := None\<rparr>)))) of
                  None \<Rightarrow> None
                | Some st4 \<Rightarrow> g_object_unref st4 binding)))"

subsection \<open>Propagation\<close>

text \<open>
  The two \<^verbatim>\<open>notify\<close> handlers. The first argument stands for
  \<^verbatim>\<open>g_object_set_property\<close>, which is defined below with the emission it causes;
  the unused \<^verbatim>\<open>gobject\<close> argument is left out. Dereferencing a freed instance or a
  \<^verbatim>\<open>NULL\<close> descriptor or function pointer has no defined result.
\<close>

type_synonym property_setter = "state \<Rightarrow> obj_ref option \<Rightarrow> string \<Rightarrow> GValue \<Rightarrow> state option"

definition on_source_notify :: "property_setter \<Rightarrow> state \<Rightarrow> GParamSpec \<Rightarrow> binding_ref \<Rightarrow> state option" where
  "on_source_notify set_property st pspec binding =
     (case bindings st binding of None \<Rightarrow> None
      | Some b \<Rightarrow>
          if is_frozen b then Some st
          else
            (let p_name = (if pspec_flags pspec AND G_PARAM_STATIC_NAME \<noteq> 0
                           then g_intern_static_string (pspec_name pspec)
                           else g_intern_string (pspec_name pspec))
             in if p_name \<noteq> source_property b then Some st
                else
                  (case (source_pspec b, target_pspec b, transform_s2t b) of
                     (Some spec_s, Some spec_t, Some transform) \<Rightarrow>
                       (let source_value = g_value_init (value_type spec_s);
                            target_value = g_value_init (value_type spec_t);
                            source_value = g_object_get_property st (source b)
                                             (pspec_name spec_s) source_value;
                            (res, target_value) = transform source_value target_value
                                                    (transform_data b)
                        in if res then
                             (let st1 = binding_update st binding (\<lambda>b. b\<lparr>is_frozen := True\<rparr>);
                                  target_value = g_param_value_validate spec_t target_value
                              in case set_property st1 (target b) (pspec_name spec_t) target_value of
                                   None \<Rightarrow> None
                                 | Some st2 \<Rightarrow>
                                     Some (binding_update st2 binding (\<lambda>b. b\<lparr>is_frozen := False\<rparr>)))
                           else Some st)
                   | _ \<Rightarrow> None)))"

definition on_target_notify :: "property_setter \<Rightarrow> state \<Rightarrow> GParamSpec \<Rightarrow> binding_ref \<Rightarrow> state option" where
  "on_target_notify set_property st pspec binding =
     (case bindings st binding of None \<Rightarrow> None
      | Some b \<Rightarrow>
          if is_frozen b then Some st
          else
            (let p_name = (if pspec_flags pspec AND G_PARAM_STATIC_NAME \<noteq> 0
                           then g_intern_static_string (pspec_name pspec)
                           else g_intern_string (pspec_name pspec))
             in if p_name \<noteq> target_property b then Some st
                else
                  (case (source_pspec b, target_pspec b, transform_t2s b) of
                     (Some spec_s, Some spec_t, Some transform) \<Rightarrow>
                       (let source_value = g_value_init (value_type spec_t);
                            target_value = g_value_init (value_type spec_s);
                            source_value = g_object_get_property st (target b)
                                             (pspec_name spec_t) source_value;
                            (res, target_value) = transform source_value target_value
                                                    (transform_data b)
                        in if res then
                             (let st1 = binding_update st binding (\<lambda>b. b\<lparr>is_frozen := True\<rparr>);
                                  target_value = g_param_value_validate spec_s target_value
                              in case set_property st1 (source b) (pspec_name spec_s) target_value of
                                   None \<Rightarrow> None
                                 | Some st2 \<Rightarrow>
                                     Some (binding_update st2 binding (\<lambda>b. b\<lparr>is_frozen := False\<rparr>)))
                           else Some st)
                   | _ \<Rightarrow> None)))"

text \<open>
  Modelled from the spec: change notification. The handlers connected to the object are
  invoked synchronously, in connection order, each on the state the previous one left.
\<close>

definition invoke_handler :: "property_setter \<Rightarrow> GParamSpec \<Rightarrow> state \<Rightarrow> handler \<Rightarrow> state option" where
  "invoke_handler set_property pspec st h =
     (case callback h of
        On_source_notify \<Rightarrow> on_source_notify set_property st pspec (handler_data h)
      | On_target_notify \<Rightarrow> on_target_notify set_property st pspec (handler_data h))"

fun g_signal_emit_notify :: "property_setter \<Rightarrow> GParamSpec \<Rightarrow> handler list \<Rightarrow> state \<Rightarrow> state option" where
  "g_signal_emit_notify set_property pspec [] st = Some st"
| "g_signal_emit_notify set_property pspec (h # hs) st =
     (case invoke_handler set_property pspec st h of None \<Rightarrow> None
      | Some st1 \<Rightarrow> g_signal_emit_notify set_property pspec hs st1)"

text \<open>
  Modelled from the spec: the property store's \<^verbatim>\<open>set\<close>, which stores the value and
  then fires the property's change notification. A call on something that is not an object
  or for a name the class does not have returns without effect. The first argument bounds
  the depth of nested calls; a result \<^const>\<open>None\<close> at depth 0 stands for a write whose
  propagation has not returned within the bound.
\<close>

primrec g_object_set_property :: "nat \<Rightarrow> property_setter" where
  "g_object_set_property 0 = (\<lambda>st object property_name v. None)"
| "g_object_set_property (Suc depth) = (\<lambda>st object property_name v.
     case object of None \<Rightarrow> Some st
     | Some ob \<Rightarrow>
         (case g_object_class_find_property st object property_name of None \<Rightarrow> Some st
          | Some pspec \<Rightarrow>
              (let st1 = st\<lparr>property_value :=
                              (property_value st)(ob := (property_value st ob)
                                 (pspec_name pspec := payload v)),
                            property_writes :=
                              property_writes st @ [(ob, pspec_name pspec, payload v)]\<rparr>
               in g_signal_emit_notify (g_object_set_property depth) pspec
                    (notify_handlers st1 ob) st1)))"

subsection \<open>Construction\<close>

text \<open>
  \<^verbatim>\<open>g_binding_constructed\<close>, run on the instance that \<^verbatim>\<open>g_object_new\<close> allocated
  and whose construct properties \<^verbatim>\<open>g_binding_set_property\<close> stored. A failing
  \<^verbatim>\<open>g_assert\<close> aborts: no result.
\<close>

definition g_binding_constructed :: "type_system \<Rightarrow> state \<Rightarrow> binding_ref \<Rightarrow> state option" where
  "g_binding_constructed ts st binding =
     (case bindings st binding of None \<Rightarrow> None
      | Some b \<Rightarrow>
          if source b = None \<or> target b = None then None
          else
            (let spec_s = g_object_class_find_property st (source b) (source_property b);
                 spec_t = g_object_class_find_property st (target b) (target_property b)
             in if spec_s = None \<or> spec_t = None then None
                else
                  (let st1 = binding_update st binding
                               (\<lambda>b. b\<lparr>source_pspec := spec_s, target_pspec := spec_t,
                                      transform_s2t := Some (default_transform_to ts),
                                      transform_t2s := Some (default_transform_from ts),
                                      transform_data := None, notify := None\<rparr>);
                       (hid, st2) = g_signal_connect st1 (source b) On_source_notify binding;
                       st3 = binding_update st2 binding (\<lambda>b. b\<lparr>source_notify := hid\<rparr>);
                       st4 = g_object_weak_ref st3 (source b) binding
                   in case add_binding_qdata st4 (source b) binding of None \<Rightarrow> None
                      | Some st5 \<Rightarrow>
                          (let st6 = (if flags b AND G_BINDING_BIDIRECTIONAL \<noteq> 0 then
                                        (let (hid, st') = g_signal_connect st5 (target b)
                                                            On_target_notify binding
                                         in binding_update st' binding
                                              (\<lambda>b. b\<lparr>target_notify := hid\<rparr>))
                                      else st5);
                               st7 = g_object_weak_ref st6 (target b) binding
                           in add_binding_qdata st7 (target b) binding))))"

text \<open>
  \<^verbatim>\<open>g_object_new (G_TYPE_BINDING, ...)\<close>: a zeroed instance with one reference, the
  five construct properties stored, then constructed.
\<close>

definition g_object_new ::
    "type_system \<Rightarrow> state \<Rightarrow> obj_ref option \<Rightarrow> string \<Rightarrow> obj_ref option \<Rightarrow> string \<Rightarrow> 32 word
       \<Rightarrow> (binding_ref \<times> state) option" where
  "g_object_new ts st src src_property tgt tgt_property fl =
     (let binding = next_binding st;
          b = \<lparr>ref_count = 1, source = src, target = tgt,
               source_property = g_intern_string src_property,
               target_property = g_intern_string tgt_property,
               source_pspec = None, target_pspec = None,
               transform_s2t = None, transform_t2s = None,
               flags = fl, source_notify = 0, target_notify = 0,
               transform_data = None, notify = None, is_frozen = False\<rparr>;
          st1 = st\<lparr>bindings := (bindings st)(binding \<mapsto> b), next_binding := Suc binding\<rparr>
      in case g_binding_constructed ts st1 binding of None \<Rightarrow> None
         | Some st2 \<Rightarrow> Some (binding, st2))"

text \<open>
  The ways \<^verbatim>\<open>g_object_bind_property_full\<close> returns \<^verbatim>\<open>NULL\<close>: a failed
  \<^verbatim>\<open>g_return_val_if_fail\<close>, and the warnings, named by what they say is missing (the
  warning of the last check also says that the target has no writable property).
\<close>

datatype bind_error =
  Invalid_argument | Self_binding_rejected | Unknown_property | Not_readable | Not_writable

text \<open>
  The result is what is returned and the state on return; the property names are not
  \<^verbatim>\<open>NULL\<close>, and \<^verbatim>\<open>g_strcmp0\<close> is 0 exactly on equal strings.
\<close>

definition g_object_bind_property_full ::
    "type_system \<Rightarrow> state \<Rightarrow> obj_ref option \<Rightarrow> string \<Rightarrow> obj_ref option \<Rightarrow> string \<Rightarrow> 32 word
       \<Rightarrow> GBindingTransformFunc option \<Rightarrow> GBindingTransformFunc option \<Rightarrow> gpointer \<Rightarrow> nat option
       \<Rightarrow> ((bind_error + binding_ref) \<times> state) option" where
  "g_object_bind_property_full ts st src src_property tgt tgt_property fl
       transform_to transform_from user_data notify_fn =
     (if \<not> G_IS_OBJECT st src then Some (Inl Invalid_argument, st)
      else if \<not> G_IS_OBJECT st tgt then Some (Inl Invalid_argument, st)
      else if src = tgt \<and> src_property = tgt_property then Some (Inl Self_binding_rejected, st)
      else
        (let transform_to = (case transform_to of None \<Rightarrow> Some (default_transform_to ts)
                             | Some f \<Rightarrow> Some f);
             transform_from = (case transform_from of None \<Rightarrow> Some (default_transform_from ts)
                               | Some f \<Rightarrow> Some f)
         in case g_object_class_find_property st src src_property of
              None \<Rightarrow> Some (Inl Unknown_property, st)
            | Some pspec \<Rightarrow>
                if \<not> (pspec_flags pspec AND G_PARAM_READABLE \<noteq> 0) then Some (Inl Not_readable, st)
                else if fl AND G_BINDING_BIDIRECTIONAL \<noteq> 0 \<and>
                        (pspec_flags pspec AND G_PARAM_CONSTRUCT_ONLY \<noteq> 0 \<or>
                         \<not> (pspec_flags pspec AND G_PARAM_WRITABLE \<noteq> 0))
                then Some (Inl Not_writable, st)
                else
                  (case g_object_class_find_property st tgt tgt_property of
                     None \<Rightarrow> Some (Inl Unknown_property, st)
                   | Some pspec \<Rightarrow>
                       if pspec_flags pspec AND G_PARAM_CONSTRUCT_ONLY \<noteq> 0 \<or>
                          \<not> (pspec_flags pspec AND G_PARAM_WRITABLE \<noteq> 0)
                       then Some (Inl Not_writable, st)
                       else if fl AND G_BINDING_BIDIRECTIONAL \<noteq> 0 \<and>
                               \<not> (pspec_flags pspec AND G_PARAM_READABLE \<noteq> 0)
                       then Some (Inl Not_writable, st)
                       else
                         (case g_object_new ts st src src_property tgt tgt_property fl of
                            None \<Rightarrow> None
                          | Some (binding, st1) \<Rightarrow>
                              Some (Inr binding,
                                binding_update st1 binding
                                  (\<lambda>b. b\<lparr>transform_s2t := transform_to,
                                         transform_t2s := transform_from,
                                         transform_data := user_data,
                                         notify := notify_fn\<rparr>))))))"

definition g_object_bind_property ::
    "type_system \<Rightarrow> state \<Rightarrow> obj_ref option \<Rightarrow> string \<Rightarrow> obj_ref option \<Rightarrow> string \<Rightarrow> 32 word
       \<Rightarrow> ((bind_error + binding_ref) \<times> state) option" where
  "g_object_bind_property ts st src src_property tgt tgt_property fl =
     g_object_bind_property_full ts st src src_property tgt tgt_property fl None None None None"

subsection \<open>Accessors\<close>

text \<open>Each accessor returns its default when the argument is not a binding.\<close>

definition g_binding_get_flags :: "state \<Rightarrow> binding_ref \<Rightarrow> 32 word" where
  "g_binding_get_flags st binding =
     (case bindings st binding of None \<Rightarrow> G_BINDING_DEFAULT | Some b \<Rightarrow> flags b)"

definition g_binding_get_source :: "state \<Rightarrow> binding_ref \<Rightarrow> obj_ref option" where
  "g_binding_get_source st binding =
     (case bindings st binding of None \<Rightarrow> None | Some b \<Rightarrow> source b)"

definition g_binding_get_target :: "state \<Rightarrow> binding_ref \<Rightarrow> obj_ref option" where
  "g_binding_get_target st binding =
     (case bindings st binding of None \<Rightarrow> None | Some b \<Rightarrow> target b)"

definition g_binding_get_source_property :: "state \<Rightarrow> binding_ref \<Rightarrow> string option" where
  "g_binding_get_source_property st binding =
     (case bindings st binding of None \<Rightarrow> None | Some b \<Rightarrow> Some (source_property b))"

definition g_binding_get_target_property :: "state \<Rightarrow> binding_ref \<Rightarrow> string option" where
  "g_binding_get_target_property st binding =
     (case bindings st binding of None \<Rightarrow> None | Some b \<Rightarrow> Some (target_property b))"

subsection \<open>Destruction of an endpoint\<close>

text \<open>
  Modelled from the spec: when an object begins its teardown, each callback registered
  with the destruction hook is invoked once, in registration order, and then the object's
  storage is reclaimed. The callbacks here are \<^verbatim>\<open>weak_unbind\<close> with their bindings.
\<close>

fun weak_refs_notify :: "state \<Rightarrow> binding_ref list \<Rightarrow> obj_ref \<Rightarrow> state option" where
  "weak_refs_notify st [] ob = Some st"
| "weak_refs_notify st (d # ds) ob =
     (case weak_unbind st d ob of None \<Rightarrow> None
      | Some st1 \<Rightarrow> weak_refs_notify st1 ds ob)"

definition destroy_object :: "state \<Rightarrow> obj_ref \<Rightarrow> state option" where
  "destroy_object st ob =
     (if object_class st ob = None then Some st
      else
        (case weak_refs_notify st (weak_refs st ob) ob of None \<Rightarrow> None
         | Some st1 \<Rightarrow>
             Some (st1\<lparr>object_class := (object_class st1)(ob := None),
                       notify_handlers := (notify_handlers st1)(ob := []),
                       weak_refs := (weak_refs st1)(ob := []),
                       qdata_gbinding := (qdata_gbinding st1)(ob := None)\<rparr>)))"

section \<open>Notions used in the statements\<close>

text \<open>
  The registry pointers are sound when every object's datum and every \<^verbatim>\<open>prev\<close>
  pointer of an allocated cell lead to an allocated cell. These are the pointers
  \<^verbatim>\<open>g_list_prepend\<close> dereferences.
\<close>

definition registry_wf :: "state \<Rightarrow> bool" where
  "registry_wf st \<longleftrightarrow>
     (\<forall>ob l. qdata_gbinding st ob = Some l \<longrightarrow> glist_cells st l \<noteq> None) \<and>
     (\<forall>l cell p. glist_cells st l = Some cell \<longrightarrow> list_prev cell = Some p \<longrightarrow>
        glist_cells st p \<noteq> None)"

text \<open>
  The validation preconditions in the words of the specification: both named properties
  exist, the two (object, property) pairs differ, the source property is readable, the
  target property is writable and not construct-only, and for a bidirectional binding the
  source property is writable and not construct-only and the target property is readable.
\<close>

definition bind_preconditions ::
    "state \<Rightarrow> obj_ref option \<Rightarrow> string \<Rightarrow> obj_ref option \<Rightarrow> string \<Rightarrow> 32 word \<Rightarrow> bool" where
  "bind_preconditions st src src_property tgt tgt_property fl =
     (case (g_object_class_find_property st src src_property,
            g_object_class_find_property st tgt tgt_property) of
        (Some spec_s, Some spec_t) \<Rightarrow>
          (src, src_property) \<noteq> (tgt, tgt_property) \<and>
          pspec_flags spec_s AND G_PARAM_READABLE \<noteq> 0 \<and>
          pspec_flags spec_t AND G_PARAM_WRITABLE \<noteq> 0 \<and>
          pspec_flags spec_t AND G_PARAM_CONSTRUCT_ONLY = 0 \<and>
          (fl AND G_BINDING_BIDIRECTIONAL \<noteq> 0 \<longrightarrow>
             pspec_flags spec_s AND G_PARAM_WRITABLE \<noteq> 0 \<and>
             pspec_flags spec_s AND G_PARAM_CONSTRUCT_ONLY = 0 \<and>
             pspec_flags spec_t AND G_PARAM_READABLE \<noteq> 0)
      | _ \<Rightarrow> False)"

text \<open>
  What a successful call of \<^const>\<open>g_object_bind_property_full\<close> in the state
  \<open>st\<close> leaves behind: the two handlers it connects and the instance it returns.
\<close>

definition source_handler :: "state \<Rightarrow> binding_ref \<Rightarrow> handler" where
  "source_handler st b =
     \<lparr>handler_id = next_handler_id st, callback = On_source_notify, handler_data = b\<rparr>"

definition target_handler :: "state \<Rightarrow> binding_ref \<Rightarrow> handler" where
  "target_handler st b =
     \<lparr>handler_id = Suc (next_handler_id st), callback = On_target_notify, handler_data = b\<rparr>"

definition constructed_binding ::
    "type_system \<Rightarrow> state \<Rightarrow> obj_ref \<Rightarrow> string \<Rightarrow> GParamSpec \<Rightarrow> obj_ref \<Rightarrow> string \<Rightarrow> GParamSpec
       \<Rightarrow> 32 word \<Rightarrow> GBindingTransformFunc option \<Rightarrow> GBindingTransformFunc option
       \<Rightarrow> gpointer \<Rightarrow> nat option \<Rightarrow> GBinding" where
  "constructed_binding ts st s sp ps t tp pt fl tt tf ud nf =
     \<lparr>ref_count = 1, source = Some s, target = Some t,
      source_property = sp, target_property = tp,
      source_pspec = Some ps, target_pspec = Some pt,
      transform_s2t = Some (case tt of None \<Rightarrow> default_transform_to ts | Some f \<Rightarrow> f),
      transform_t2s = Some (case tf of None \<Rightarrow> default_transform_from ts | Some f \<Rightarrow> f),
      flags = fl, source_notify = next_handler_id st,
      target_notify = (if fl AND G_BINDING_BIDIRECTIONAL \<noteq> 0 then Suc (next_handler_id st) else 0),
      transform_data = ud, notify = nf, is_frozen = False\<rparr>"



text \<open>
  A handler is inert for a property when its Link is allocated and either has its guard
  flag set or watches another property: on a notification of that property it returns at
  once. \<open>property_store\<close> is the state after the property store has stored a payload:
  the value table and the record of writes are updated and nothing else.
\<close>

definition inert :: "state \<Rightarrow> string \<Rightarrow> handler \<Rightarrow> bool" where
  "inert st p h \<longleftrightarrow>
     (\<exists>r. bindings st (handler_data h) = Some r \<and>
        (is_frozen r \<or>
         (case callback h of
            On_source_notify \<Rightarrow> source_property r \<noteq> p
          | On_target_notify \<Rightarrow> target_property r \<noteq> p)))"

definition property_store :: "state \<Rightarrow> obj_ref \<Rightarrow> string \<Rightarrow> int \<Rightarrow> state" where
  "property_store st ob p v =
     st\<lparr>property_value := (property_value st)(ob := (property_value st ob)(p := v)),
        property_writes := property_writes st @ [(ob, p, v)]\<rparr>"

subsection \<open>A concrete configuration\<close>

text \<open>
  Three objects: object 1 with the properties \<^verbatim>\<open>x\<close> and \<^verbatim>\<open>z\<close>, object 2 with
  \<^verbatim>\<open>y\<close>, object 3 with \<^verbatim>\<open>w\<close>; all properties are readable and writable, of
  type 1, and accept every value. No binding has been made yet.
\<close>

definition prop_rw :: "string \<Rightarrow> GParamSpec" where
  "prop_rw n = \<lparr>pspec_name = n, pspec_flags = G_PARAM_READABLE OR G_PARAM_WRITABLE,
                value_type = 1, value_validate = (\<lambda>v. v)\<rparr>"

definition demo_state :: state where
  "demo_state =
     \<lparr>object_class = [1 \<mapsto> [prop_rw ''x'', prop_rw ''z''], 2 \<mapsto> [prop_rw ''y''],
                      3 \<mapsto> [prop_rw ''w'']],
      property_value = (\<lambda>_ _. 0), notify_handlers = (\<lambda>_. []), weak_refs = (\<lambda>_. []),
      qdata_gbinding = (\<lambda>_. None), bindings = Map.empty, glist_cells = Map.empty,
      next_binding = 1, next_handler_id = 1, next_list_ref = 1,
      property_writes = [], destroy_notified = []\<rparr>"

text \<open>A custom transform that declines negative values and copies the others.\<close>

definition decline_negative :: GBindingTransformFunc where
  "decline_negative value_a value_b user_data =
     (if payload value_a < 0 then (False, value_b)
      else (True, value_b\<lparr>payload := payload value_a\<rparr>))"














section \<open>Properties of the authorization delegate\<close>

lemma emit_closures_deny:
  "h \<in> set hs \<Longrightarrow> \<not> h stream credentials \<Longrightarrow> \<not> emit_closures hs stream credentials accu"
  by (induction hs arbitrary: accu)
    (auto simp: g_signal_accumulator_false_handled_def Let_def)

text \<open>
  Claim C9. With no handler attached the authorization returns allow; if any attached
  handler returns deny, the decision is reject.
\<close>

theorem authorize_default_allow_and_deny:
  "g_dbus_auth_observer_authorize_authenticated_peer g_dbus_auth_observer_new stream credentials
   \<and> (\<forall>observer h. h \<in> set (connected observer) \<union> set (connected_after observer)
         \<longrightarrow> \<not> h stream credentials
         \<longrightarrow> \<not> g_dbus_auth_observer_authorize_authenticated_peer observer stream credentials)"
proof -
  have allow: "g_dbus_auth_observer_authorize_authenticated_peer g_dbus_auth_observer_new
                 stream credentials"
    by (simp add: g_dbus_auth_observer_authorize_authenticated_peer_def g_signal_emit_def
        g_dbus_auth_observer_new_def g_signal_accumulator_false_handled_def Let_def
        g_dbus_auth_observer_authorize_authenticated_peer_real_def)
  have deny: "\<not> g_dbus_auth_observer_authorize_authenticated_peer observer stream credentials"
    if "h \<in> set (connected observer) \<union> set (connected_after observer)"
      and "\<not> h stream credentials" for observer h
  proof -
    from that(1) have "h \<in> set (connected observer
        @ [g_dbus_auth_observer_authorize_authenticated_peer_real] @ connected_after observer)"
      by auto
    from emit_closures_deny [OF this that(2)] show ?thesis
      by (simp add: g_dbus_auth_observer_authorize_authenticated_peer_def g_signal_emit_def
          Let_def)
  qed
  from allow deny show ?thesis by blast
qed

theorem authorize_default_allow_and_deny_witness:
  "g_dbus_auth_observer_authorize_authenticated_peer g_dbus_auth_observer_new 7 None
   \<and> \<not> g_dbus_auth_observer_authorize_authenticated_peer
         \<lparr>connected = [\<lambda>s c. True, \<lambda>s c. c \<noteq> None], connected_after = []\<rparr> 7 None"
proof -
  let ?ob = "\<lparr>connected = [\<lambda>s c. True, \<lambda>s (c::GCredentials). c \<noteq> None], connected_after = []\<rparr>"
  have mem: "(\<lambda>s (c::GCredentials). c \<noteq> None) \<in> set (connected ?ob) \<union> set (connected_after ?ob)"
    by simp
  from authorize_default_allow_and_deny [of 7 None] mem show ?thesis
    by blast
qed

section \<open>Properties of the default transform\<close>

text \<open>
  Claim C5 says that for two incompatible types with no registered conversion the default
  transform reports failure. At the types 1 and 2 of \<^const>\<open>strict_types\<close>, which are
  unrelated, not compatible and not transformable, the function returns \<^verbatim>\<open>TRUE\<close>
  and leaves the destination value as initialised.
\<close>

lemma default_transform_same_type:
  assumes "g_type_is_a ts (g_type value_a) (g_type value_b)"
  shows "default_transform ts value_a value_b = (True, g_value_copy value_a value_b)"
  using assms by (simp add: default_transform_def)

lemma default_transform_converts:
  assumes "\<not> g_type_is_a ts (g_type value_a) (g_type value_b)"
    and "\<not> g_value_type_compatible ts (g_type value_a) (g_type value_b)"
    and "g_value_type_transformable ts (g_type value_a) (g_type value_b)"
  shows "default_transform ts value_a value_b = g_value_transform ts value_a value_b"
  using assms
  by (cases "g_value_transform ts value_a value_b")
    (auto simp: default_transform_def split: bool.splits)

theorem default_transform_unrelated_types_reports_success:
  "default_transform strict_types \<lparr>g_type = 1, payload = 5\<rparr> (g_value_init 2)
     = (True, \<lparr>g_type = 2, payload = 0\<rparr>)"
  by (simp add: default_transform_def strict_types_def g_value_init_def)

section \<open>Frame and definedness lemmas\<close>

lemma g_list_prepend_frame:
  assumes "g_list_prepend st bs d = Some (r, st')"
  shows "\<exists>cells n. st' = st\<lparr>glist_cells := cells, next_list_ref := n\<rparr>"
  using assms
  by (auto simp: g_list_prepend_def Let_def split: option.splits)

lemma add_binding_qdata_frame:
  assumes "add_binding_qdata st g d = Some st'"
  shows "\<exists>cells n q. st' = st\<lparr>glist_cells := cells, next_list_ref := n, qdata_gbinding := q\<rparr>"
proof (cases "g_object_get_qdata st g")
  case None
  with assms obtain r st1 where p: "g_list_prepend st None d = Some (r, st1)"
    and s: "st' = g_object_set_qdata st1 g r"
    by (auto simp: add_binding_qdata_def Let_def split: option.splits)
  from g_list_prepend_frame [OF p] obtain cells n
    where "st1 = st\<lparr>glist_cells := cells, next_list_ref := n\<rparr>" by blast
  with s have "st' = st\<lparr>glist_cells := cells, next_list_ref := n,
       qdata_gbinding := qdata_gbinding st'\<rparr>"
    by (cases g) (simp_all add: g_object_set_qdata_def)
  then show ?thesis by blast
next
  case (Some l)
  with assms obtain r where p: "g_list_prepend st (Some l) d = Some (r, st')"
    by (auto simp: add_binding_qdata_def Let_def split: option.splits)
  from g_list_prepend_frame [OF p] obtain cells n
    where "st' = st\<lparr>glist_cells := cells, next_list_ref := n\<rparr>" by blast
  then have "st' = st\<lparr>glist_cells := cells, next_list_ref := n,
       qdata_gbinding := qdata_gbinding st\<rparr>"
    by simp
  then show ?thesis by blast
qed

lemma add_binding_qdata_fields:
  assumes "add_binding_qdata st g d = Some st'"
  shows "bindings st' = bindings st" "notify_handlers st' = notify_handlers st"
    "next_handler_id st' = next_handler_id st" "object_class st' = object_class st"
    "property_value st' = property_value st" "property_writes st' = property_writes st"
    "destroy_notified st' = destroy_notified st" "weak_refs st' = weak_refs st"
    "next_binding st' = next_binding st"
proof -
  from add_binding_qdata_frame [OF assms] obtain cells n q
    where eq: "st' = st\<lparr>glist_cells := cells, next_list_ref := n, qdata_gbinding := q\<rparr>"
    by blast
  show "bindings st' = bindings st" "notify_handlers st' = notify_handlers st"
    "next_handler_id st' = next_handler_id st" "object_class st' = object_class st"
    "property_value st' = property_value st" "property_writes st' = property_writes st"
    "destroy_notified st' = destroy_notified st" "weak_refs st' = weak_refs st"
    "next_binding st' = next_binding st"
    by (simp_all add: eq)
qed

lemma g_list_prepend_wf:
  assumes wf: "registry_wf st" and bs: "\<forall>l. bs = Some l \<longrightarrow> glist_cells st l \<noteq> None"
  shows "\<exists>r st'. g_list_prepend st bs d = Some (Some r, st') \<and> registry_wf st'
           \<and> glist_cells st' r \<noteq> None \<and> qdata_gbinding st' = qdata_gbinding st"
proof (cases bs)
  case None
  with wf show ?thesis
    by (auto simp: g_list_prepend_def registry_wf_def Let_def)
next
  case (Some l)
  with bs obtain cell where cell: "glist_cells st l = Some cell" by auto
  show ?thesis
  proof (cases "list_prev cell")
    case None
    with Some cell wf show ?thesis
      by (auto simp: g_list_prepend_def registry_wf_def Let_def)
  next
    case p: (Some p)
    with cell wf obtain pcell where pcell: "glist_cells st p = Some pcell"
      unfolding registry_wf_def by blast
    with Some cell p wf show ?thesis
      by (auto simp: g_list_prepend_def registry_wf_def Let_def)
  qed
qed

lemma registry_wf_binding_update [simp]:
  "registry_wf (binding_update st b f) = registry_wf st"
  by (simp add: registry_wf_def binding_update_def split: option.splits)

lemma registry_wf_weak_ref [simp]:
  "registry_wf (g_object_weak_ref st g d) = registry_wf st"
  by (simp add: registry_wf_def g_object_weak_ref_def split: option.splits)

lemma registry_wf_signal_connect [simp]:
  "registry_wf (snd (g_signal_connect st g c d)) = registry_wf st"
  by (simp add: registry_wf_def g_signal_connect_def Let_def split: option.splits)

lemma registry_wf_alloc_binding [simp]:
  "registry_wf (st\<lparr>bindings := bs, next_binding := n\<rparr>) = registry_wf st"
  by (simp add: registry_wf_def)

lemma add_binding_qdata_wf:
  assumes wf: "registry_wf st"
  shows "\<exists>st'. add_binding_qdata st g d = Some st' \<and> registry_wf st'"
proof (cases "g_object_get_qdata st g")
  case None
  from g_list_prepend_wf [OF wf, of None d] obtain r st1
    where p: "g_list_prepend st None d = Some (Some r, st1)" and wf1: "registry_wf st1"
      and r: "glist_cells st1 r \<noteq> None"
    by auto
  from wf1 r have "registry_wf (g_object_set_qdata st1 g (Some r))"
    by (auto simp: registry_wf_def g_object_set_qdata_def split: option.splits)
  with None p show ?thesis
    by (simp add: add_binding_qdata_def)
next
  case (Some l)
  with wf have "glist_cells st l \<noteq> None"
    by (auto simp: registry_wf_def g_object_get_qdata_def split: option.splits)
  from g_list_prepend_wf [OF wf, of "Some l" d] this obtain r st1
    where "g_list_prepend st (Some l) d = Some (Some r, st1)" and "registry_wf st1"
    by auto
  with Some show ?thesis
    by (simp add: add_binding_qdata_def)
qed

lemma find_property_same_class:
  "object_class st' = object_class st \<Longrightarrow>
   g_object_class_find_property st' g n = g_object_class_find_property st g n"
  by (simp add: g_object_class_find_property_def split: option.splits)

lemma find_property_name:
  "g_object_class_find_property st g n = Some p \<Longrightarrow> pspec_name p = n"
  by (auto simp: g_object_class_find_property_def find_Some_iff split: option.splits)

lemma find_property_G_IS_OBJECT:
  "g_object_class_find_property st g n \<noteq> None \<Longrightarrow> G_IS_OBJECT st g"
  by (auto simp: g_object_class_find_property_def G_IS_OBJECT_def split: option.splits)

lemma find_property_writes [simp]:
  "g_object_class_find_property (st\<lparr>property_value := pv, property_writes := pw\<rparr>) g n
     = g_object_class_find_property st g n"
  by (simp add: g_object_class_find_property_def split: option.splits)

lemma find_property_bindings [simp]:
  "g_object_class_find_property (st\<lparr>bindings := bs\<rparr>) g n
     = g_object_class_find_property st g n"
  by (simp add: g_object_class_find_property_def split: option.splits)

lemma g_binding_constructed_defined:
  assumes wf: "registry_wf st" and b: "bindings st b = Some r"
    and s: "g_object_class_find_property st (source r) (source_property r) \<noteq> None"
    and t: "g_object_class_find_property st (target r) (target_property r) \<noteq> None"
  shows "\<exists>st'. g_binding_constructed ts st b = Some st'"
proof -
  from s obtain so where so: "source r = Some so"
    by (auto simp: g_object_class_find_property_def split: option.splits)
  from t obtain ta where ta: "target r = Some ta"
    by (auto simp: g_object_class_find_property_def split: option.splits)
  let ?st1 = "binding_update st b
      (\<lambda>x. x\<lparr>source_pspec := g_object_class_find_property st (source r) (source_property r),
             target_pspec := g_object_class_find_property st (target r) (target_property r),
             transform_s2t := Some (default_transform_to ts),
             transform_t2s := Some (default_transform_from ts),
             transform_data := None, notify := None\<rparr>)"
  let ?c = "g_signal_connect ?st1 (source r) On_source_notify b"
  let ?st4 = "g_object_weak_ref (binding_update (snd ?c) b (\<lambda>x. x\<lparr>source_notify := fst ?c\<rparr>))
      (source r) b"
  have "registry_wf ?st4" using wf by simp
  from add_binding_qdata_wf [OF this] obtain st5
    where st5: "add_binding_qdata ?st4 (source r) b = Some st5" and wf5: "registry_wf st5"
    by blast
  let ?c' = "g_signal_connect st5 (target r) On_target_notify b"
  let ?st6 = "if flags r AND G_BINDING_BIDIRECTIONAL \<noteq> 0
      then binding_update (snd ?c') b (\<lambda>x. x\<lparr>target_notify := fst ?c'\<rparr>) else st5"
  have "registry_wf (g_object_weak_ref ?st6 (target r) b)" using wf5 by simp
  from add_binding_qdata_wf [OF this] obtain st8
    where "add_binding_qdata (g_object_weak_ref ?st6 (target r) b) (target r) b = Some st8"
    by blast
  with st5 b s t so ta show ?thesis
    by (cases "flags r AND G_BINDING_BIDIRECTIONAL = 0")
      (simp_all add: g_binding_constructed_def Let_def case_prod_beta)
qed

lemma g_object_new_defined:
  assumes wf: "registry_wf st"
    and s: "g_object_class_find_property st src sp \<noteq> None"
    and t: "g_object_class_find_property st tgt tp \<noteq> None"
  shows "\<exists>b st'. g_object_new ts st src sp tgt tp fl = Some (b, st')"
proof -
  let ?b = "next_binding st"
  let ?r = "\<lparr>ref_count = 1, source = src, target = tgt,
             source_property = g_intern_string sp, target_property = g_intern_string tp,
             source_pspec = None, target_pspec = None,
             transform_s2t = None, transform_t2s = None,
             flags = fl, source_notify = 0, target_notify = 0,
             transform_data = None, notify = None, is_frozen = False\<rparr>"
  let ?st1 = "st\<lparr>bindings := (bindings st)(?b \<mapsto> ?r), next_binding := Suc ?b\<rparr>"
  have "\<exists>st'. g_binding_constructed ts ?st1 ?b = Some st'"
  proof (rule g_binding_constructed_defined [where r = ?r])
    show "registry_wf ?st1" using wf by simp
    show "bindings ?st1 ?b = Some ?r" by simp
    show "g_object_class_find_property ?st1 (source ?r) (source_property ?r) \<noteq> None"
      using s find_property_same_class [of ?st1 st src sp]
      by (simp add: g_intern_string_def)
    show "g_object_class_find_property ?st1 (target ?r) (target_property ?r) \<noteq> None"
      using t find_property_same_class [of ?st1 st tgt tp]
      by (simp add: g_intern_string_def)
  qed
  then show ?thesis
    by (auto simp: g_object_new_def Let_def)
qed

lemma bind_accepted:
  assumes pre: "bind_preconditions st src sp tgt tp fl"
  shows "g_object_bind_property_full ts st src sp tgt tp fl tt tf ud nf =
     (case g_object_new ts st src sp tgt tp fl of None \<Rightarrow> None
      | Some (binding, st1) \<Rightarrow>
          Some (Inr binding,
            binding_update st1 binding
              (\<lambda>b. b\<lparr>transform_s2t := (case tt of None \<Rightarrow> Some (default_transform_to ts)
                                        | Some f \<Rightarrow> Some f),
                     transform_t2s := (case tf of None \<Rightarrow> Some (default_transform_from ts)
                                        | Some f \<Rightarrow> Some f),
                     transform_data := ud, notify := nf\<rparr>)))"
proof -
  from pre obtain spec_s spec_t
    where s: "g_object_class_find_property st src sp = Some spec_s"
      and t: "g_object_class_find_property st tgt tp = Some spec_t"
    by (auto simp: bind_preconditions_def split: option.splits)
  have "G_IS_OBJECT st src"
    using s find_property_G_IS_OBJECT [of st src sp] by simp
  moreover have "G_IS_OBJECT st tgt"
    using t find_property_G_IS_OBJECT [of st tgt tp] by simp
  ultimately show ?thesis using pre s t
    by (auto simp: g_object_bind_property_full_def bind_preconditions_def Let_def)
qed

lemma bind_defined:
  assumes wf: "registry_wf st" and pre: "bind_preconditions st src sp tgt tp fl"
  shows "\<exists>binding st'. g_object_bind_property_full ts st src sp tgt tp fl tt tf ud nf
              = Some (Inr binding, st')"
proof -
  from pre obtain spec_s spec_t
    where s: "g_object_class_find_property st src sp = Some spec_s"
      and t: "g_object_class_find_property st tgt tp = Some spec_t"
    by (auto simp: bind_preconditions_def split: option.splits)
  from g_object_new_defined [OF wf, of src sp tgt tp ts fl] s t obtain b st1
    where "g_object_new ts st src sp tgt tp fl = Some (b, st1)" by auto
  moreover have "G_IS_OBJECT st src"
    using s find_property_G_IS_OBJECT [of st src sp] by simp
  moreover have "G_IS_OBJECT st tgt"
    using t find_property_G_IS_OBJECT [of st tgt tp] by simp
  ultimately show ?thesis using pre s t
    by (auto simp: g_object_bind_property_full_def bind_preconditions_def Let_def)
qed

lemma bind_rejected:
  assumes "\<not> bind_preconditions st src sp tgt tp fl"
  shows "\<exists>e. g_object_bind_property_full ts st src sp tgt tp fl tt tf ud nf = Some (Inl e, st)"
proof (cases "g_object_class_find_property st src sp")
  case None
  then show ?thesis
    by (simp add: g_object_bind_property_full_def Let_def)
next
  case s: (Some spec_s)
  show ?thesis
  proof (cases "g_object_class_find_property st tgt tp")
    case None
    with s show ?thesis
      by (simp add: g_object_bind_property_full_def Let_def)
  next
    case t: (Some spec_t)
    with s assms show ?thesis
      by (simp add: g_object_bind_property_full_def bind_preconditions_def Let_def)
        blast
  qed
qed

section \<open>The state after a successful bind\<close>

lemma g_binding_constructed_result:
  assumes run: "g_binding_constructed ts st b = Some st'" and b: "bindings st b = Some r"
  shows "\<exists>s t ps pt. source r = Some s \<and> target r = Some t
     \<and> g_object_class_find_property st (Some s) (source_property r) = Some ps
     \<and> g_object_class_find_property st (Some t) (target_property r) = Some pt
     \<and> bindings st' = (bindings st)(b \<mapsto> r\<lparr>source_pspec := Some ps, target_pspec := Some pt,
            transform_s2t := Some (default_transform_to ts),
            transform_t2s := Some (default_transform_from ts),
            transform_data := None, notify := None,
            source_notify := next_handler_id st,
            target_notify := (if flags r AND G_BINDING_BIDIRECTIONAL \<noteq> 0
                              then Suc (next_handler_id st) else target_notify r)\<rparr>)
     \<and> notify_handlers st' =
          (if flags r AND G_BINDING_BIDIRECTIONAL \<noteq> 0
           then ((notify_handlers st)(s := notify_handlers st s @ [source_handler st b]))
                  (t := ((notify_handlers st)(s := notify_handlers st s @ [source_handler st b])) t
                          @ [target_handler st b])
           else (notify_handlers st)(s := notify_handlers st s @ [source_handler st b]))
     \<and> object_class st' = object_class st \<and> property_value st' = property_value st
     \<and> property_writes st' = property_writes st \<and> destroy_notified st' = destroy_notified st
     \<and> next_binding st' = next_binding st"
proof -
  from run b obtain s t ps pt where s: "source r = Some s" and t: "target r = Some t"
    and ps: "g_object_class_find_property st (Some s) (source_property r) = Some ps"
    and pt: "g_object_class_find_property st (Some t) (target_property r) = Some pt"
    by (auto simp: g_binding_constructed_def Let_def split: if_splits)
  from ps obtain cls_s where cls_s: "object_class st s = Some cls_s"
    by (auto simp: g_object_class_find_property_def split: option.splits)
  from pt obtain cls_t where cls_t: "object_class st t = Some cls_t"
    by (auto simp: g_object_class_find_property_def split: option.splits)
  let ?st1 = "binding_update st b
      (\<lambda>x. x\<lparr>source_pspec := Some ps, target_pspec := Some pt,
             transform_s2t := Some (default_transform_to ts),
             transform_t2s := Some (default_transform_from ts),
             transform_data := None, notify := None\<rparr>)"
  let ?c = "g_signal_connect ?st1 (Some s) On_source_notify b"
  let ?st4 = "g_object_weak_ref (binding_update (snd ?c) b (\<lambda>x. x\<lparr>source_notify := fst ?c\<rparr>))
      (Some s) b"
  from run b s t ps pt obtain st5 where st5: "add_binding_qdata ?st4 (Some s) b = Some st5"
    and rest: "add_binding_qdata
        (g_object_weak_ref
           (if flags r AND G_BINDING_BIDIRECTIONAL \<noteq> 0
            then binding_update (snd (g_signal_connect st5 (Some t) On_target_notify b)) b
                   (\<lambda>x. x\<lparr>target_notify := fst (g_signal_connect st5 (Some t) On_target_notify b)\<rparr>)
            else st5) (Some t) b) (Some t) b = Some st'"
    by (auto simp: g_binding_constructed_def Let_def case_prod_beta split: option.splits
        cong: if_cong)
  note f5 = add_binding_qdata_fields [OF st5]
  note f' = add_binding_qdata_fields [OF rest]
  have "bindings st' = (bindings st)(b \<mapsto> r\<lparr>source_pspec := Some ps, target_pspec := Some pt,
            transform_s2t := Some (default_transform_to ts),
            transform_t2s := Some (default_transform_from ts),
            transform_data := None, notify := None,
            source_notify := next_handler_id st,
            target_notify := (if flags r AND G_BINDING_BIDIRECTIONAL \<noteq> 0
                              then Suc (next_handler_id st) else target_notify r)\<rparr>)"
    using b cls_s cls_t
    by (cases "flags r AND G_BINDING_BIDIRECTIONAL = 0")
      (simp_all add: f' f5 g_object_weak_ref_def g_signal_connect_def binding_update_def Let_def)
  moreover have "notify_handlers st' =
          (if flags r AND G_BINDING_BIDIRECTIONAL \<noteq> 0
           then ((notify_handlers st)(s := notify_handlers st s @ [source_handler st b]))
                  (t := ((notify_handlers st)(s := notify_handlers st s @ [source_handler st b])) t
                          @ [target_handler st b])
           else (notify_handlers st)(s := notify_handlers st s @ [source_handler st b]))"
    using b cls_s cls_t
    by (cases "flags r AND G_BINDING_BIDIRECTIONAL = 0")
      (simp_all add: f' f5 g_object_weak_ref_def g_signal_connect_def binding_update_def Let_def
        source_handler_def target_handler_def)
  moreover have "object_class st' = object_class st \<and> property_value st' = property_value st
     \<and> property_writes st' = property_writes st \<and> destroy_notified st' = destroy_notified st
     \<and> next_binding st' = next_binding st"
    using b cls_s cls_t
    by (cases "flags r AND G_BINDING_BIDIRECTIONAL = 0")
      (simp_all add: f' f5 g_object_weak_ref_def g_signal_connect_def binding_update_def Let_def)
  ultimately show ?thesis
    using s t ps pt by blast
qed

lemma bind_success:
  assumes run: "g_object_bind_property_full ts st src sp tgt tp fl tt tf ud nf = Some (Inr b, st1)"
  shows "\<exists>s t ps pt. src = Some s \<and> tgt = Some t \<and> (s \<noteq> t \<or> sp \<noteq> tp)
     \<and> g_object_class_find_property st (Some s) sp = Some ps
     \<and> g_object_class_find_property st (Some t) tp = Some pt
     \<and> b = next_binding st
     \<and> bindings st1 = (bindings st)(b \<mapsto> constructed_binding ts st s sp ps t tp pt fl tt tf ud nf)
     \<and> notify_handlers st1 =
          (if fl AND G_BINDING_BIDIRECTIONAL \<noteq> 0
           then ((notify_handlers st)(s := notify_handlers st s @ [source_handler st b]))
                  (t := ((notify_handlers st)(s := notify_handlers st s @ [source_handler st b])) t
                          @ [target_handler st b])
           else (notify_handlers st)(s := notify_handlers st s @ [source_handler st b]))
     \<and> object_class st1 = object_class st \<and> property_value st1 = property_value st
     \<and> property_writes st1 = property_writes st \<and> destroy_notified st1 = destroy_notified st"
proof -
  from run obtain st2 where new: "g_object_new ts st src sp tgt tp fl = Some (b, st2)"
    and st1: "st1 = binding_update st2 b
                (\<lambda>x. x\<lparr>transform_s2t := (case tt of None \<Rightarrow> Some (default_transform_to ts)
                                          | Some f \<Rightarrow> Some f),
                        transform_t2s := (case tf of None \<Rightarrow> Some (default_transform_from ts)
                                          | Some f \<Rightarrow> Some f),
                        transform_data := ud, notify := nf\<rparr>)"
    and ne: "\<not> (src = tgt \<and> sp = tp)"
    unfolding g_object_bind_property_full_def Let_def
    by (auto split: if_splits option.splits)
  let ?r = "\<lparr>ref_count = 1, source = src, target = tgt,
             source_property = g_intern_string sp, target_property = g_intern_string tp,
             source_pspec = None, target_pspec = None,
             transform_s2t = None, transform_t2s = None,
             flags = fl, source_notify = 0, target_notify = 0,
             transform_data = None, notify = None, is_frozen = False\<rparr>"
  let ?st0 = "st\<lparr>bindings := (bindings st)(next_binding st \<mapsto> ?r),
                 next_binding := Suc (next_binding st)\<rparr>"
  from new have bn: "b = next_binding st"
    and con: "g_binding_constructed ts ?st0 (next_binding st) = Some st2"
    by (auto simp: g_object_new_def Let_def split: option.splits)
  have "bindings ?st0 (next_binding st) = Some ?r" by simp
  from g_binding_constructed_result [OF con this] obtain s t ps pt
    where s: "src = Some s" and t: "tgt = Some t"
      and ps: "g_object_class_find_property ?st0 (Some s) sp = Some ps"
      and pt: "g_object_class_find_property ?st0 (Some t) tp = Some pt"
      and bs: "bindings st2 = (bindings ?st0)(next_binding st \<mapsto>
            ?r\<lparr>source_pspec := Some ps, target_pspec := Some pt,
            transform_s2t := Some (default_transform_to ts),
            transform_t2s := Some (default_transform_from ts),
            transform_data := None, notify := None,
            source_notify := next_handler_id ?st0,
            target_notify := (if flags ?r AND G_BINDING_BIDIRECTIONAL \<noteq> 0
                              then Suc (next_handler_id ?st0) else target_notify ?r)\<rparr>)"
      and hs: "notify_handlers st2 =
          (if flags ?r AND G_BINDING_BIDIRECTIONAL \<noteq> 0
           then ((notify_handlers ?st0)(s := notify_handlers ?st0 s
                    @ [source_handler ?st0 (next_binding st)]))
                  (t := ((notify_handlers ?st0)(s := notify_handlers ?st0 s
                            @ [source_handler ?st0 (next_binding st)])) t
                          @ [target_handler ?st0 (next_binding st)])
           else (notify_handlers ?st0)(s := notify_handlers ?st0 s
                    @ [source_handler ?st0 (next_binding st)]))"
      and fr: "object_class st2 = object_class ?st0" "property_value st2 = property_value ?st0"
        "property_writes st2 = property_writes ?st0" "destroy_notified st2 = destroy_notified ?st0"
    by (auto simp: g_intern_string_def)
  from ps have ps': "g_object_class_find_property st (Some s) sp = Some ps"
    using find_property_same_class [of ?st0 st "Some s" sp] by simp
  from pt have pt': "g_object_class_find_property st (Some t) tp = Some pt"
    using find_property_same_class [of ?st0 st "Some t" tp] by simp
  have "bindings st1 = (bindings st)(b \<mapsto> constructed_binding ts st s sp ps t tp pt fl tt tf ud nf)"
    unfolding st1 bn
    by (simp add: binding_update_def bs constructed_binding_def g_intern_string_def s t
        split: option.splits)
  moreover have "notify_handlers st1 =
          (if fl AND G_BINDING_BIDIRECTIONAL \<noteq> 0
           then ((notify_handlers st)(s := notify_handlers st s @ [source_handler st b]))
                  (t := ((notify_handlers st)(s := notify_handlers st s @ [source_handler st b])) t
                          @ [target_handler st b])
           else (notify_handlers st)(s := notify_handlers st s @ [source_handler st b]))"
    unfolding st1 bn
    by (simp add: binding_update_def bs hs source_handler_def target_handler_def)
  moreover have "object_class st1 = object_class st \<and> property_value st1 = property_value st
     \<and> property_writes st1 = property_writes st \<and> destroy_notified st1 = destroy_notified st"
    unfolding st1 bn
    by (simp add: binding_update_def bs fr)
  ultimately show ?thesis
    using s t ps' pt' bn ne by blast
qed

section \<open>Teardown lemmas\<close>

lemma g_list_remove_frame:
  assumes "g_list_remove st bs d = Some (r, st')"
  shows "st' = st\<lparr>glist_cells := glist_cells st'\<rparr>"
  using assms unfolding g_list_remove_def
  by (auto split: option.splits)

lemma remove_binding_qdata_frame:
  assumes "remove_binding_qdata st g d = Some st'"
  shows "st' = st\<lparr>glist_cells := glist_cells st'\<rparr>"
  using assms g_list_remove_frame
  by (auto simp: remove_binding_qdata_def Let_def split: option.splits)

lemma remove_binding_qdata_bindings:
  assumes "remove_binding_qdata st g d = Some st'"
  shows "bindings st' = bindings st"
proof -
  from remove_binding_qdata_frame [OF assms]
  have "bindings st' = bindings (st\<lparr>glist_cells := glist_cells st'\<rparr>)" by simp
  then show ?thesis by simp
qed

lemma bindings_weak_unref [simp]: "bindings (g_object_weak_unref st g d) = bindings st"
  by (simp add: g_object_weak_unref_def split: option.splits)

lemma bindings_handler_disconnect [simp]:
  "bindings (g_signal_handler_disconnect st g i) = bindings st"
  by (simp add: g_signal_handler_disconnect_def split: option.splits)

lemma bindings_binding_update:
  "bindings (binding_update st b f) =
     (case bindings st b of None \<Rightarrow> bindings st | Some r \<Rightarrow> (bindings st)(b \<mapsto> f r))"
  by (simp add: binding_update_def split: option.splits)

lemma unlink_step_bindings:
  assumes "(if e = Some w then Some (binding_update st b f)
            else (case remove_binding_qdata
                         (g_object_weak_unref
                            (if hid \<noteq> 0 then g_signal_handler_disconnect st e hid else st) e b)
                         e b of
                    None \<Rightarrow> None
                  | Some st1 \<Rightarrow> Some (binding_update st1 b f))) = Some st2"
    and "bindings st b = Some r"
  shows "bindings st2 = (bindings st)(b \<mapsto> f r)"
  using assms
  by (auto simp: bindings_binding_update dest!: remove_binding_qdata_bindings
      split: if_splits option.splits)

lemma weak_unbind_steps:
  assumes b: "bindings st binding = Some r"
    and run: "weak_unbind st binding w = Some st'"
  shows "\<exists>st4. bindings st4 = (bindings st)(binding \<mapsto> r\<lparr>source := None, target := None\<rparr>)
           \<and> g_object_unref st4 binding = Some st'"
proof -
  from run b obtain st2 st4
    where s2: "(if source r = Some w then
                   Some (binding_update st binding (\<lambda>b. b\<lparr>source := None\<rparr>))
                 else
                   (case remove_binding_qdata
                           (g_object_weak_unref
                              (if source_notify r \<noteq> 0
                               then g_signal_handler_disconnect st (source r) (source_notify r)
                               else st)
                              (source r) binding)
                           (source r) binding of
                      None \<Rightarrow> None
                    | Some st1 \<Rightarrow> Some (binding_update st1 binding (\<lambda>b. b\<lparr>source := None\<rparr>))))
               = Some st2"
      and s4: "(if target r = Some w then
                        Some (binding_update st2 binding (\<lambda>b. b\<lparr>target := None\<rparr>))
                      else
                        (case remove_binding_qdata
                                (g_object_weak_unref
                                   (if target_notify r \<noteq> 0
                                    then g_signal_handler_disconnect st2 (target r) (target_notify r)
                                    else st2)
                                   (target r) binding)
                                (target r) binding of
                           None \<Rightarrow> None
                         | Some st3 \<Rightarrow>
                             Some (binding_update st3 binding (\<lambda>b. b\<lparr>target := None\<rparr>))))
               = Some st4"
      and u: "g_object_unref st4 binding = Some st'"
    by (simp add: weak_unbind_def split: option.splits)
  from unlink_step_bindings [OF s2 b]
  have b2: "bindings st2 binding = Some (r\<lparr>source := None\<rparr>)"
    and e2: "bindings st2 = (bindings st)(binding \<mapsto> r\<lparr>source := None\<rparr>)" by simp_all
  from unlink_step_bindings [OF s4 b2] e2
  have "bindings st4 = (bindings st)(binding \<mapsto> r\<lparr>source := None, target := None\<rparr>)"
    by simp
  with u show ?thesis by blast
qed

lemma g_binding_finalize_others:
  assumes "g_binding_finalize st d = Some st'" and "b \<noteq> d"
  shows "bindings st' b = bindings st b"
proof -
  from assms(1) obtain r where r: "bindings st d = Some r"
    by (auto simp: g_binding_finalize_def split: option.splits)
  let ?st1 = "(case notify r of None \<Rightarrow> st
                      | Some fn \<Rightarrow>
                          binding_update
                            (st\<lparr>destroy_notified := destroy_notified st @ [(fn, transform_data r)]\<rparr>)
                            d (\<lambda>b. b\<lparr>transform_data := None, notify := None\<rparr>))"
  have b1: "bindings ?st1 b = bindings st b"
    using assms(2) r by (simp add: binding_update_def split: option.splits)
  from assms(1) r obtain st2
    where s2: "(if source r \<noteq> None then
                      remove_binding_qdata
                        (g_object_weak_unref
                           (if source_notify r \<noteq> 0
                            then g_signal_handler_disconnect ?st1 (source r) (source_notify r)
                            else ?st1)
                           (source r) d)
                        (source r) d
                    else Some ?st1) = Some st2"
      and s3: "(if target r \<noteq> None then
                     remove_binding_qdata
                       (g_object_weak_unref
                          (if target_notify r \<noteq> 0
                           then g_signal_handler_disconnect st2 (target r) (target_notify r)
                           else st2)
                          (target r) d)
                       (target r) d
                   else Some st2) = Some st'"
    by (simp add: g_binding_finalize_def Let_def split: option.splits)
  from s2 have "bindings st2 = bindings ?st1"
    by (auto dest!: remove_binding_qdata_bindings split: if_splits)
  moreover from s3 have "bindings st' = bindings st2"
    by (auto dest!: remove_binding_qdata_bindings split: if_splits)
  ultimately show ?thesis using b1 by simp
qed

lemma g_object_unref_others:
  assumes "g_object_unref st d = Some st'" and "b \<noteq> d"
  shows "bindings st' b = bindings st b"
  using assms
  by (auto simp: g_object_unref_def bindings_binding_update
      dest: g_binding_finalize_others split: option.splits if_splits)

lemma weak_unbind_others:
  assumes run: "weak_unbind st d w = Some st'" and ne: "b \<noteq> d"
  shows "bindings st' b = bindings st b"
proof -
  from run obtain r where r: "bindings st d = Some r"
    by (auto simp: weak_unbind_def split: option.splits)
  from weak_unbind_steps [OF r run] obtain st4
    where "bindings st4 = (bindings st)(d \<mapsto> r\<lparr>source := None, target := None\<rparr>)"
      and "g_object_unref st4 d = Some st'" by blast
  with g_object_unref_others [OF this(2) ne] ne show ?thesis by simp
qed

lemma weak_unbind_held:
  assumes b: "bindings st binding = Some r" and held: "1 < ref_count r"
    and run: "weak_unbind st binding w = Some st'"
  shows "bindings st' binding
      = Some (r\<lparr>source := None, target := None, ref_count := ref_count r - 1\<rparr>)"
proof -
  from weak_unbind_steps [OF b run] obtain st4
    where "bindings st4 = (bindings st)(binding \<mapsto> r\<lparr>source := None, target := None\<rparr>)"
      and "g_object_unref st4 binding = Some st'" by blast
  with held show ?thesis
    by (auto simp: g_object_unref_def bindings_binding_update split: if_splits)
qed

lemma weak_refs_notify_binding:
  assumes "weak_refs_notify st ds ob = Some st'" and "bindings st b = Some r"
    and "count_list ds b < ref_count r"
  shows "\<exists>r'. bindings st' b = Some r'
     \<and> source_property r' = source_property r \<and> target_property r' = target_property r
     \<and> flags r' = flags r
     \<and> (if b \<in> set ds then source r' = None \<and> target r' = None
         else source r' = source r \<and> target r' = target r)"
  using assms
proof (induction ds arbitrary: st r)
  case Nil
  then show ?case by simp
next
  case (Cons d ds)
  from Cons.prems(1) obtain st1 where w: "weak_unbind st d ob = Some st1"
    and rest: "weak_refs_notify st1 ds ob = Some st'"
    by (auto split: option.splits)
  show ?case
  proof (cases "d = b")
    case True
    from Cons.prems(3) True have held: "1 < ref_count r" by simp
    let ?r1 = "r\<lparr>source := None, target := None, ref_count := ref_count r - 1\<rparr>"
    from weak_unbind_held [OF Cons.prems(2) held w [unfolded True]]
    have b1: "bindings st1 b = Some ?r1" .
    from Cons.prems(3) True have "count_list ds b < ref_count ?r1" by simp
    from Cons.IH [OF rest b1 this] True show ?thesis
      by (auto split: if_splits)
  next
    case False
    from weak_unbind_others [OF w, of b] False Cons.prems(2)
    have b1: "bindings st1 b = Some r" by simp
    from Cons.prems(3) False have "count_list ds b < ref_count r" by simp
    from Cons.IH [OF rest b1 this] False show ?thesis
      by (auto split: if_splits)
  qed
qed

section \<open>Every dispatch returns\<close>











section \<open>Handlers that do not react, and one run through a Link\<close>

lemma set_property_unfold:
  assumes "g_object_class_find_property st (Some ob) p = Some pspec"
  shows "g_object_set_property (Suc n) st (Some ob) p v =
     g_signal_emit_notify (g_object_set_property n) pspec (notify_handlers st ob)
       (property_store st ob (pspec_name pspec) (payload v))"
  using assms by (simp add: Let_def property_store_def)

lemma inert_returns:
  assumes "inert st (pspec_name pspec) h"
  shows "invoke_handler setter pspec st h = Some st"
  using assms
  by (cases "callback h")
    (auto simp: inert_def invoke_handler_def on_source_notify_def on_target_notify_def
      g_intern_string_def g_intern_static_string_def Let_def)

lemma emit_inert:
  assumes "\<forall>h \<in> set hs. inert st (pspec_name pspec) h"
  shows "g_signal_emit_notify setter pspec hs st = Some st"
  using assms by (induction hs) (simp_all add: inert_returns)

lemma emit_append:
  "g_signal_emit_notify setter pspec (hs @ hs') st =
     (case g_signal_emit_notify setter pspec hs st of None \<Rightarrow> None
      | Some st1 \<Rightarrow> g_signal_emit_notify setter pspec hs' st1)"
  by (induction hs arbitrary: st) (simp_all split: option.splits)

lemma inert_cong:
  "bindings st' = bindings st \<Longrightarrow> inert st' p h = inert st p h"
  by (simp add: inert_def)

lemma property_store_fields [simp]:
  "bindings (property_store st ob p v) = bindings st"
  "notify_handlers (property_store st ob p v) = notify_handlers st"
  "object_class (property_store st ob p v) = object_class st"
  "property_writes (property_store st ob p v) = property_writes st @ [(ob, p, v)]"
  "property_value (property_store st ob p v) = (property_value st)(ob := (property_value st ob)(p := v))"
  by (simp_all add: property_store_def)

lemma find_property_store [simp]:
  "g_object_class_find_property (property_store st ob p v) g n = g_object_class_find_property st g n"
  by (simp add: property_store_def)

lemma binding_update_fields [simp]:
  "notify_handlers (binding_update st l f) = notify_handlers st"
  "object_class (binding_update st l f) = object_class st"
  "property_writes (binding_update st l f) = property_writes st"
  "property_value (binding_update st l f) = property_value st"
  by (simp_all add: binding_update_def split: option.splits)

lemma find_property_binding_update [simp]:
  "g_object_class_find_property (binding_update st l f) g n = g_object_class_find_property st g n"
  by (simp add: binding_update_def split: option.splits)

lemma write_inert:
  assumes "g_object_class_find_property st (Some ob) p = Some pspec"
    and "\<forall>h \<in> set (notify_handlers st ob). inert st (pspec_name pspec) h"
  shows "g_object_set_property (Suc n) st (Some ob) p v
           = Some (property_store st ob (pspec_name pspec) (payload v))"
proof -
  let ?s = "property_store st ob (pspec_name pspec) (payload v)"
  have "\<forall>h \<in> set (notify_handlers st ob). inert ?s (pspec_name pspec) h"
    using assms(2) inert_cong [of ?s st] by simp
  from emit_inert [OF this] show ?thesis
    unfolding set_property_unfold [OF assms(1)] by simp
qed

lemma source_propagates:
  assumes "bindings st l = Some r" and "\<not> is_frozen r"
    and "pspec_name pspec = source_property r"
    and "source_pspec r = Some spec_s" and "target_pspec r = Some spec_t"
    and "transform_s2t r = Some f"
  shows "on_source_notify setter st pspec l =
     (case f (g_object_get_property st (source r) (pspec_name spec_s)
                (g_value_init (value_type spec_s)))
             (g_value_init (value_type spec_t)) (transform_data r) of
        (True, tv) \<Rightarrow>
          map_option (\<lambda>st2. binding_update st2 l (\<lambda>b. b\<lparr>is_frozen := False\<rparr>))
            (setter (binding_update st l (\<lambda>b. b\<lparr>is_frozen := True\<rparr>)) (target r)
               (pspec_name spec_t) (g_param_value_validate spec_t tv))
      | (False, tv) \<Rightarrow> Some st)"
  using assms
  by (auto simp: on_source_notify_def g_intern_string_def g_intern_static_string_def Let_def
      split: prod.splits bool.splits option.splits)

lemma target_propagates:
  assumes "bindings st l = Some r" and "\<not> is_frozen r"
    and "pspec_name pspec = target_property r"
    and "source_pspec r = Some spec_s" and "target_pspec r = Some spec_t"
    and "transform_t2s r = Some f"
  shows "on_target_notify setter st pspec l =
     (case f (g_object_get_property st (target r) (pspec_name spec_t)
                (g_value_init (value_type spec_t)))
             (g_value_init (value_type spec_s)) (transform_data r) of
        (True, tv) \<Rightarrow>
          map_option (\<lambda>st2. binding_update st2 l (\<lambda>b. b\<lparr>is_frozen := False\<rparr>))
            (setter (binding_update st l (\<lambda>b. b\<lparr>is_frozen := True\<rparr>)) (source r)
               (pspec_name spec_s) (g_param_value_validate spec_s tv))
      | (False, tv) \<Rightarrow> Some st)"
  using assms
  by (auto simp: on_target_notify_def g_intern_string_def g_intern_static_string_def Let_def
      split: prod.splits bool.splits option.splits)

lemma thaw_store:
  assumes "bindings st l = Some r" and "\<not> is_frozen r"
  shows "binding_update (property_store (binding_update st l (\<lambda>b. b\<lparr>is_frozen := True\<rparr>)) ob p v)
            l (\<lambda>b. b\<lparr>is_frozen := False\<rparr>) = property_store st ob p v"
  using assms
  by (simp add: binding_update_def property_store_def fun_upd_idem)


lemma others_stay_inert:
  assumes "\<forall>h \<in> set hs. inert st p h" and "bindings st l = None"
    and "bindings s' = (bindings st)(l \<mapsto> r')"
  shows "\<forall>h \<in> set hs. inert s' p h"
proof
  fix h assume "h \<in> set hs"
  with assms(1) obtain r where r: "bindings st (handler_data h) = Some r"
    and w: "is_frozen r \<or> (case callback h of On_source_notify \<Rightarrow> source_property r \<noteq> p
          | On_target_notify \<Rightarrow> target_property r \<noteq> p)"
    unfolding inert_def by blast
  from r assms(2) have "handler_data h \<noteq> l" by auto
  with r assms(3) have "bindings s' (handler_data h) = Some r" by simp
  with w show "inert s' p h" unfolding inert_def by blast
qed

lemma guarded_inert:
  assumes "bindings s' l = Some r'" and "is_frozen r'" and "handler_data h = l"
  shows "inert s' p h"
  using assms unfolding inert_def by simp

lemma bound_state:
  assumes bind: "g_object_bind_property_full ts st (Some s) sp (Some t) tp fl tt tf ud nf
                   = Some (Inr l, st1)"
    and ps: "g_object_class_find_property st (Some s) sp = Some ps"
    and pt: "g_object_class_find_property st (Some t) tp = Some pt"
  shows "l = next_binding st"
    and "bindings st1 = (bindings st)(l \<mapsto>
           constructed_binding ts st s sp ps t tp pt fl tt tf ud nf)"
    and "notify_handlers st1 s = notify_handlers st s @ [source_handler st l]
           @ (if fl AND G_BINDING_BIDIRECTIONAL \<noteq> 0 \<and> s = t then [target_handler st l] else [])"
    and "notify_handlers st1 t = notify_handlers st t
           @ (if s = t then [source_handler st l] else [])
           @ (if fl AND G_BINDING_BIDIRECTIONAL \<noteq> 0 then [target_handler st l] else [])"
    and "g_object_class_find_property st1 (Some s) sp = Some ps"
    and "g_object_class_find_property st1 (Some t) tp = Some pt"
    and "pspec_name ps = sp" and "pspec_name pt = tp" and "s \<noteq> t \<or> sp \<noteq> tp"
proof -
  from bind_success [OF bind] ps pt
  have ne: "s \<noteq> t \<or> sp \<noteq> tp" and l: "l = next_binding st"
    and bs: "bindings st1 = (bindings st)(l \<mapsto>
        constructed_binding ts st s sp ps t tp pt fl tt tf ud nf)"
    and hs: "notify_handlers st1 =
          (if fl AND G_BINDING_BIDIRECTIONAL \<noteq> 0
           then ((notify_handlers st)(s := notify_handlers st s @ [source_handler st l]))
                  (t := ((notify_handlers st)(s := notify_handlers st s @ [source_handler st l])) t
                          @ [target_handler st l])
           else (notify_handlers st)(s := notify_handlers st s @ [source_handler st l]))"
    and cl: "object_class st1 = object_class st"
    by auto
  show "l = next_binding st" by (rule l)
  show "bindings st1 = (bindings st)(l \<mapsto>
           constructed_binding ts st s sp ps t tp pt fl tt tf ud nf)" by (rule bs)
  show "notify_handlers st1 s = notify_handlers st s @ [source_handler st l]
           @ (if fl AND G_BINDING_BIDIRECTIONAL \<noteq> 0 \<and> s = t then [target_handler st l] else [])"
    by (simp add: hs)
  show "notify_handlers st1 t = notify_handlers st t
           @ (if s = t then [source_handler st l] else [])
           @ (if fl AND G_BINDING_BIDIRECTIONAL \<noteq> 0 then [target_handler st l] else [])"
    by (simp add: hs)
  show "g_object_class_find_property st1 (Some s) sp = Some ps"
    using ps find_property_same_class [OF cl, of "Some s" sp] by simp
  show "g_object_class_find_property st1 (Some t) tp = Some pt"
    using pt find_property_same_class [OF cl, of "Some t" tp] by simp
  show "pspec_name ps = sp" by (rule find_property_name [OF ps])
  show "pspec_name pt = tp" by (rule find_property_name [OF pt])
  show "s \<noteq> t \<or> sp \<noteq> tp" by (rule ne)
qed


lemma forward_run:
  assumes bind: "g_object_bind_property_full ts st (Some s) sp (Some t) tp fl tt tf ud nf
                   = Some (Inr l, st1)"
    and fresh: "bindings st (next_binding st) = None"
    and qs: "\<forall>h \<in> set (notify_handlers st s). inert st sp h"
    and qt: "\<forall>h \<in> set (notify_handlers st t). inert st tp h"
    and ps: "g_object_class_find_property st (Some s) sp = Some ps"
    and pt: "g_object_class_find_property st (Some t) tp = Some pt"
    and same: "bindings s' = bindings st1" "notify_handlers s' = notify_handlers st1"
      "object_class s' = object_class st1"
  shows "g_object_set_property (Suc (Suc n)) s' (Some s) sp val =
     Some (case (case tt of None \<Rightarrow> default_transform_to ts | Some f \<Rightarrow> f)
                  \<lparr>g_type = value_type ps, payload = payload val\<rparr>
                  (g_value_init (value_type pt)) ud of
             (True, tv) \<Rightarrow>
               property_store (property_store s' s sp (payload val)) t tp
                 (value_validate pt (payload tv))
           | (False, tv) \<Rightarrow> property_store s' s sp (payload val))"
proof -
  note b = bound_state [OF bind ps pt]
  let ?cb = "constructed_binding ts st s sp ps t tp pt fl tt tf ud nf"
  let ?f = "case tt of None \<Rightarrow> default_transform_to ts | Some f \<Rightarrow> f"
  let ?S1 = "property_store s' s sp (payload val)"
  let ?F = "binding_update ?S1 l (\<lambda>b. b\<lparr>is_frozen := True\<rparr>)"
  have fr: "bindings st l = None" using fresh b(1) by simp
  have bs': "bindings s' = (bindings st)(l \<mapsto> ?cb)" using same(1) b(2) by simp
  have bS1: "bindings ?S1 = (bindings st)(l \<mapsto> ?cb)" using bs' by simp
  have lS1: "bindings ?S1 l = Some ?cb" using bs' by simp
  have nf: "\<not> is_frozen ?cb" by (simp add: constructed_binding_def)
  have fsS: "g_object_class_find_property s' (Some s) sp = Some ps"
    using b(5) find_property_same_class [OF same(3), of "Some s" sp] by simp
  have ftS: "g_object_class_find_property s' (Some t) tp = Some pt"
    using b(6) find_property_same_class [OF same(3), of "Some t" tp] by simp
  have bF: "bindings ?F = (bindings st)(l \<mapsto> ?cb\<lparr>is_frozen := True\<rparr>)"
    using bs' by (simp add: bindings_binding_update)
  have nested: "g_object_set_property (Suc n) ?F (Some t) tp v
                  = Some (property_store ?F t tp (payload v))" for v
  proof -
    have f: "g_object_class_find_property ?F (Some t) tp = Some pt" using ftS by simp
    have "\<forall>h \<in> set (notify_handlers ?F t). inert ?F (pspec_name pt) h"
    proof
      fix h assume "h \<in> set (notify_handlers ?F t)"
      then have "h \<in> set (notify_handlers st t) \<or> handler_data h = l"
        using same(2) b(4) by (auto simp: source_handler_def target_handler_def split: if_splits)
      then show "inert ?F (pspec_name pt) h"
      proof
        assume "h \<in> set (notify_handlers st t)"
        with others_stay_inert [OF qt fr bF] show ?thesis by (simp add: b(8))
      next
        assume own: "handler_data h = l"
        have "bindings ?F l = Some (?cb\<lparr>is_frozen := True\<rparr>)" by (simp add: bF)
        from guarded_inert [OF this _ own] show ?thesis by simp
      qed
    qed
    from write_inert [OF f this] show ?thesis by (simp add: b(8))
  qed
  have read: "g_object_get_property ?S1 (Some s) (pspec_name ps) (g_value_init (value_type ps))
      = \<lparr>g_type = value_type ps, payload = payload val\<rparr>"
    using fsS b(7) by (simp add: g_object_get_property_def g_value_init_def)
  let ?S2 = "case ?f \<lparr>g_type = value_type ps, payload = payload val\<rparr>
                  (g_value_init (value_type pt)) ud of
               (True, tv) \<Rightarrow> property_store ?S1 t tp (value_validate pt (payload tv))
             | (False, tv) \<Rightarrow> ?S1"
  have cbf: "pspec_name ps = source_property ?cb" "source_pspec ?cb = Some ps"
    "target_pspec ?cb = Some pt" "transform_s2t ?cb = Some ?f"
    "source ?cb = Some s" "target ?cb = Some t" "transform_data ?cb = ud"
    by (simp_all add: constructed_binding_def b(7))
  have own: "invoke_handler (g_object_set_property (Suc n)) ps ?S1 (source_handler st l)
               = Some ?S2"
  proof -
    obtain res tv where tr: "?f \<lparr>g_type = value_type ps, payload = payload val\<rparr>
                  (g_value_init (value_type pt)) ud = (res, tv)" by fastforce
    note sp' = source_propagates [OF lS1 nf cbf(1) cbf(2) cbf(3) cbf(4),
        of "g_object_set_property (Suc n)"]
    have "on_source_notify (g_object_set_property (Suc n)) ?S1 ps l = Some ?S2"
      using nested thaw_store [OF lS1 nf, of t tp]
      by (cases res)
        (simp_all add: sp' cbf(5-7) read tr b(8) g_param_value_validate_def
          del: g_object_set_property.simps)
    then show ?thesis by (simp add: invoke_handler_def source_handler_def)
  qed
  have pre: "\<forall>h \<in> set (notify_handlers st s). inert ?S1 (pspec_name ps) h"
    using others_stay_inert [OF qs fr bS1] by (simp add: b(7))
  have bS2: "bindings ?S2 = (bindings st)(l \<mapsto> ?cb)"
    by (simp add: bs' split: prod.splits bool.splits)
  let ?suffix = "if fl AND G_BINDING_BIDIRECTIONAL \<noteq> 0 \<and> s = t then [target_handler st l] else []"
  have suf: "\<forall>h \<in> set ?suffix. inert ?S2 (pspec_name ps) h"
    using b(9)
    by (auto simp: inert_def target_handler_def bS2 constructed_binding_def b(7))
  have Hs: "notify_handlers s' s = notify_handlers st s @ source_handler st l # ?suffix"
    using same(2) b(3) by simp
  have "g_signal_emit_notify (g_object_set_property (Suc n)) ps
          (notify_handlers st s @ source_handler st l # ?suffix) ?S1 = Some ?S2"
    by (simp only: emit_append emit_inert [OF pre] option.case g_signal_emit_notify.simps own
        emit_inert [OF suf])
  then show ?thesis
    unfolding set_property_unfold [OF fsS] b(7) Hs .
qed




section \<open>Facts about the concrete configuration\<close>

lemmas eval_defs = g_object_bind_property_def g_object_bind_property_full_def G_IS_OBJECT_def
  g_object_class_find_property_def g_object_new_def g_binding_constructed_def
  g_signal_connect_def g_object_weak_ref_def add_binding_qdata_def g_object_get_qdata_def
  g_object_set_qdata_def g_list_prepend_def binding_update_def g_intern_string_def
  registry_entry_def Let_def
  G_PARAM_READABLE_def G_PARAM_WRITABLE_def G_PARAM_CONSTRUCT_ONLY_def
  G_BINDING_DEFAULT_def G_BINDING_BIDIRECTIONAL_def prop_rw_def demo_state_def

lemmas teardown_defs = destroy_object_def weak_unbind_def remove_binding_qdata_def
  g_list_remove_def g_object_unref_def g_binding_finalize_def g_object_weak_unref_def
  g_signal_handler_disconnect_def g_object_ref_def

lemma demo_wf: "registry_wf demo_state"
  by (simp add: registry_wf_def demo_state_def)

lemma demo_find:
  "g_object_class_find_property demo_state (Some 1) ''x'' = Some (prop_rw ''x'')"
  "g_object_class_find_property demo_state (Some 2) ''y'' = Some (prop_rw ''y'')"
  by (simp_all add: g_object_class_find_property_def demo_state_def prop_rw_def)

lemma demo_pre:
  "bind_preconditions demo_state (Some 1) ''x'' (Some 2) ''y'' G_BINDING_DEFAULT"
  "bind_preconditions demo_state (Some 1) ''x'' (Some 2) ''y'' G_BINDING_BIDIRECTIONAL"
  by (simp_all add: bind_preconditions_def g_object_class_find_property_def demo_state_def
      prop_rw_def G_PARAM_READABLE_def G_PARAM_WRITABLE_def G_PARAM_CONSTRUCT_ONLY_def
      G_BINDING_DEFAULT_def G_BINDING_BIDIRECTIONAL_def)


lemma demo_bind:
  "\<exists>st1. g_object_bind_property_full ts demo_state (Some 1) ''x'' (Some 2) ''y''
            G_BINDING_BIDIRECTIONAL tt tf ud nf = Some (Inr 1, st1)"
  "\<exists>st1. g_object_bind_property_full ts demo_state (Some 1) ''x'' (Some 2) ''y''
            G_BINDING_DEFAULT tt tf ud nf = Some (Inr 1, st1)"
proof -
  from bind_defined [OF demo_wf demo_pre(2), of ts tt tf ud nf] obtain l st1
    where b: "g_object_bind_property_full ts demo_state (Some 1) ''x'' (Some 2) ''y''
            G_BINDING_BIDIRECTIONAL tt tf ud nf = Some (Inr l, st1)" by blast
  from bind_success [OF b] have "l = 1" by (auto simp: demo_state_def)
  with b show "\<exists>st1. g_object_bind_property_full ts demo_state (Some 1) ''x'' (Some 2) ''y''
            G_BINDING_BIDIRECTIONAL tt tf ud nf = Some (Inr 1, st1)" by blast
  from bind_defined [OF demo_wf demo_pre(1), of ts tt tf ud nf] obtain l' st1'
    where b': "g_object_bind_property_full ts demo_state (Some 1) ''x'' (Some 2) ''y''
            G_BINDING_DEFAULT tt tf ud nf = Some (Inr l', st1')" by blast
  from bind_success [OF b'] have "l' = 1" by (auto simp: demo_state_def)
  with b' show "\<exists>st1. g_object_bind_property_full ts demo_state (Some 1) ''x'' (Some 2) ''y''
            G_BINDING_DEFAULT tt tf ud nf = Some (Inr 1, st1)" by blast
qed




lemma demo_fresh: "bindings demo_state (next_binding demo_state) = None"
  by (simp add: demo_state_def)

lemma demo_inert:
  "\<forall>h \<in> set (notify_handlers demo_state 1). inert demo_state p h"
  "\<forall>h \<in> set (notify_handlers demo_state 2). inert demo_state p h"
  by (simp_all add: demo_state_def)



section \<open>Validation at construction\<close>

text \<open>
  Claim C3 says that a call of bind returns a Link whenever all validation preconditions
  hold. The checks themselves are the claim's (lemmas \<open>bind_rejected\<close> and
  \<open>bind_accepted\<close>), and a Link is returned when the registry pointers are sound
  (lemma \<open>bind_defined\<close>). In the concrete configuration, after binding \<^verbatim>\<open>x\<close> of
  object 1 to \<^verbatim>\<open>y\<close> of object 2 and releasing the Link again with
  \<^verbatim>\<open>g_object_unref\<close>, the preconditions hold for the same call, the datum of
  object 1 still points to the list cell that has been freed, and the call has no defined
  result: \<^const>\<open>add_binding_qdata\<close> hands the stale datum to \<^const>\<open>g_list_prepend\<close>,
  which reads the freed cell.
\<close>

theorem rebind_after_unref_is_undefined:
  "\<exists>st1. g_object_bind_property strict_types demo_state (Some 1) ''x'' (Some 2) ''y''
            G_BINDING_DEFAULT = Some (Inr 1, st1)
     \<and> (\<exists>st2. g_object_unref st1 1 = Some st2
          \<and> bindings st2 1 = None
          \<and> bind_preconditions st2 (Some 1) ''x'' (Some 2) ''y'' G_BINDING_DEFAULT
          \<and> qdata_gbinding st2 1 = Some 1 \<and> glist_cells st2 1 = None
          \<and> g_object_bind_property strict_types st2 (Some 1) ''x'' (Some 2) ''y''
               G_BINDING_DEFAULT = None)"
  by (simp add: eval_defs teardown_defs bind_preconditions_def g_list_members.simps
      g_list_find_cell.simps)

theorem rebind_after_unref_is_undefined_witness:
  "\<exists>st1 st2 l.
      g_object_bind_property strict_types demo_state (Some 1) ''x'' (Some 2) ''y''
        G_BINDING_DEFAULT = Some (Inr 1, st1)
    \<and> g_object_unref st1 1 = Some st2
    \<and> bind_preconditions st2 (Some 1) ''x'' (Some 2) ''y'' G_BINDING_DEFAULT
    \<and> qdata_gbinding st2 1 = Some l \<and> glist_cells st2 l = None
    \<and> g_object_bind_property strict_types st2 (Some 1) ''x'' (Some 2) ''y''
         G_BINDING_DEFAULT = None"
  using rebind_after_unref_is_undefined by blast

text \<open>
  Claim C7. A construction-time failure of bind is atomic: whenever the call reports an
  error, the state on return is the state of the call, so no Link, no subscription, no
  weak reference and no registry entry has been created on either object.
\<close>

theorem bind_failure_leaves_state:
  assumes "g_object_bind_property_full ts st src sp tgt tp fl tt tf ud nf = Some (Inl e, st')"
  shows "st' = st"
  using assms unfolding g_object_bind_property_full_def Let_def
  by (simp split: option.splits if_splits prod.splits)

theorem bind_failure_leaves_state_witness:
  "\<exists>st' st''.
      g_object_bind_property_full strict_types demo_state (Some 1) ''x'' (Some 1) ''x''
        G_BINDING_DEFAULT None None None None = Some (Inl Self_binding_rejected, st')
    \<and> st' = demo_state
    \<and> g_object_bind_property_full strict_types demo_state (Some 1) ''x'' (Some 2) ''q''
        G_BINDING_DEFAULT None None None None = Some (Inl Unknown_property, st'')
    \<and> st'' = demo_state"
proof -
  have h: "g_object_bind_property_full strict_types demo_state (Some 1) ''x'' (Some 1) ''x''
            G_BINDING_DEFAULT None None None None = Some (Inl Self_binding_rejected, demo_state)"
    by (simp add: g_object_bind_property_full_def G_IS_OBJECT_def demo_state_def)
  have h': "g_object_bind_property_full strict_types demo_state (Some 1) ''x'' (Some 2) ''q''
            G_BINDING_DEFAULT None None None None = Some (Inl Unknown_property, demo_state)"
    by (simp add: g_object_bind_property_full_def G_IS_OBJECT_def
        g_object_class_find_property_def demo_state_def prop_rw_def Let_def
        G_PARAM_READABLE_def G_PARAM_WRITABLE_def G_BINDING_DEFAULT_def
        G_BINDING_BIDIRECTIONAL_def)
  from bind_failure_leaves_state [OF h] bind_failure_leaves_state [OF h'] h h'
  show ?thesis by blast
qed

section \<open>Propagation\<close>




text \<open>
  Claim C4. A propagation is a run of a handler of a Link that is allocated, has its
  guard clear and its descriptors set. When the transform of its direction reports failure
  on the value read, the handler returns the state it was entered with, for every setter
  and every notified property: nothing is written, the destination property keeps its
  value, the guard is clear as on entry, the Link and its subscriptions are as before. In
  every later state in which the Link is unchanged, a notification of the watched property
  whose value the transform accepts makes the handler call the setter for the destination
  property with the coerced value, between setting and clearing the guard.
\<close>

theorem failed_transform_leaves_state:
  assumes link: "bindings st l = Some r" and clear: "\<not> is_frozen r"
    and descriptors: "source_pspec r = Some spec_s" "target_pspec r = Some spec_t"
  shows
   "(\<forall>f setter pspec. transform_s2t r = Some f \<longrightarrow>
        \<not> fst (f (g_object_get_property st (source r) (pspec_name spec_s)
                     (g_value_init (value_type spec_s)))
                  (g_value_init (value_type spec_t)) (transform_data r)) \<longrightarrow>
        on_source_notify setter st pspec l = Some st)
    \<and> (\<forall>f setter pspec. transform_t2s r = Some f \<longrightarrow>
        \<not> fst (f (g_object_get_property st (target r) (pspec_name spec_t)
                     (g_value_init (value_type spec_t)))
                  (g_value_init (value_type spec_s)) (transform_data r)) \<longrightarrow>
        on_target_notify setter st pspec l = Some st)
    \<and> (\<forall>st' f setter pspec tv. bindings st' l = Some r \<longrightarrow> transform_s2t r = Some f \<longrightarrow>
        pspec_name pspec = source_property r \<longrightarrow>
        f (g_object_get_property st' (source r) (pspec_name spec_s)
             (g_value_init (value_type spec_s)))
          (g_value_init (value_type spec_t)) (transform_data r) = (True, tv) \<longrightarrow>
        on_source_notify setter st' pspec l =
          map_option (\<lambda>st2. binding_update st2 l (\<lambda>b. b\<lparr>is_frozen := False\<rparr>))
            (setter (binding_update st' l (\<lambda>b. b\<lparr>is_frozen := True\<rparr>)) (target r)
               (pspec_name spec_t) (g_param_value_validate spec_t tv)))
    \<and> (\<forall>st' f setter pspec tv. bindings st' l = Some r \<longrightarrow> transform_t2s r = Some f \<longrightarrow>
        pspec_name pspec = target_property r \<longrightarrow>
        f (g_object_get_property st' (target r) (pspec_name spec_t)
             (g_value_init (value_type spec_t)))
          (g_value_init (value_type spec_s)) (transform_data r) = (True, tv) \<longrightarrow>
        on_target_notify setter st' pspec l =
          map_option (\<lambda>st2. binding_update st2 l (\<lambda>b. b\<lparr>is_frozen := False\<rparr>))
            (setter (binding_update st' l (\<lambda>b. b\<lparr>is_frozen := True\<rparr>)) (source r)
               (pspec_name spec_s) (g_param_value_validate spec_s tv)))"
proof -
  have s_fail: "on_source_notify setter st pspec l = Some st"
    if "transform_s2t r = Some f"
      and "\<not> fst (f (g_object_get_property st (source r) (pspec_name spec_s)
                     (g_value_init (value_type spec_s)))
                  (g_value_init (value_type spec_t)) (transform_data r))"
    for f setter pspec
    using that link clear descriptors
    by (auto simp: on_source_notify_def Let_def split: prod.splits)
  have t_fail: "on_target_notify setter st pspec l = Some st"
    if "transform_t2s r = Some f"
      and "\<not> fst (f (g_object_get_property st (target r) (pspec_name spec_t)
                     (g_value_init (value_type spec_t)))
                  (g_value_init (value_type spec_s)) (transform_data r))"
    for f setter pspec
    using that link clear descriptors
    by (auto simp: on_target_notify_def Let_def split: prod.splits)
  have s_again: "on_source_notify setter st' pspec l =
          map_option (\<lambda>st2. binding_update st2 l (\<lambda>b. b\<lparr>is_frozen := False\<rparr>))
            (setter (binding_update st' l (\<lambda>b. b\<lparr>is_frozen := True\<rparr>)) (target r)
               (pspec_name spec_t) (g_param_value_validate spec_t tv))"
    if "bindings st' l = Some r" and "transform_s2t r = Some f"
      and "pspec_name pspec = source_property r"
      and "f (g_object_get_property st' (source r) (pspec_name spec_s)
             (g_value_init (value_type spec_s)))
          (g_value_init (value_type spec_t)) (transform_data r) = (True, tv)"
    for st' f setter pspec tv
    using source_propagates [OF that(1) clear that(3) descriptors that(2), of setter] that(4)
    by simp
  have t_again: "on_target_notify setter st' pspec l =
          map_option (\<lambda>st2. binding_update st2 l (\<lambda>b. b\<lparr>is_frozen := False\<rparr>))
            (setter (binding_update st' l (\<lambda>b. b\<lparr>is_frozen := True\<rparr>)) (source r)
               (pspec_name spec_s) (g_param_value_validate spec_s tv))"
    if "bindings st' l = Some r" and "transform_t2s r = Some f"
      and "pspec_name pspec = target_property r"
      and "f (g_object_get_property st' (target r) (pspec_name spec_t)
             (g_value_init (value_type spec_t)))
          (g_value_init (value_type spec_s)) (transform_data r) = (True, tv)"
    for st' f setter pspec tv
    using target_propagates [OF that(1) clear that(3) descriptors that(2), of setter] that(4)
    by simp
  from s_fail t_fail s_again t_again show ?thesis by blast
qed

theorem failed_transform_leaves_state_witness:
  "\<exists>st1 r.
      g_object_bind_property_full strict_types demo_state (Some 1) ''x'' (Some 2) ''y''
        G_BINDING_BIDIRECTIONAL (Some decline_negative) (Some decline_negative) None None
        = Some (Inr 1, st1)
    \<and> bindings st1 1 = Some r \<and> \<not> is_frozen r
    \<and> source_pspec r = Some (prop_rw ''x'') \<and> target_pspec r = Some (prop_rw ''y'')
    \<and> transform_s2t r = Some decline_negative \<and> transform_t2s r = Some decline_negative
    \<and> g_object_set_property (Suc (Suc 0)) st1 (Some 1) ''x'' \<lparr>g_type = 1, payload = - 5\<rparr>
        = Some (property_store st1 1 ''x'' (- 5))
    \<and> on_source_notify (g_object_set_property (Suc 0)) (property_store st1 1 ''x'' (- 5))
          (prop_rw ''x'') 1
        = Some (property_store st1 1 ''x'' (- 5))
    \<and> on_target_notify (g_object_set_property (Suc 0)) (property_store st1 2 ''y'' (- 5))
          (prop_rw ''y'') 1
        = Some (property_store st1 2 ''y'' (- 5))
    \<and> on_source_notify (g_object_set_property (Suc 0))
          (property_store (property_store st1 1 ''x'' (- 5)) 1 ''x'' 7) (prop_rw ''x'') 1
        = Some (property_store (property_store (property_store st1 1 ''x'' (- 5)) 1 ''x'' 7)
                  2 ''y'' 7)
    \<and> g_object_set_property (Suc (Suc 0)) (property_store st1 1 ''x'' (- 5)) (Some 1) ''x''
          \<lparr>g_type = 1, payload = 7\<rparr>
        = Some (property_store (property_store (property_store st1 1 ''x'' (- 5)) 1 ''x'' 7)
                  2 ''y'' 7)"
proof -
  from demo_bind(1) [of strict_types "Some decline_negative" "Some decline_negative" None None]
  obtain st1
    where bind: "g_object_bind_property_full strict_types demo_state (Some 1) ''x'' (Some 2) ''y''
        G_BINDING_BIDIRECTIONAL (Some decline_negative) (Some decline_negative) None None
        = Some (Inr 1, st1)" by blast
  note b = bound_state [OF bind demo_find]
  let ?cb = "constructed_binding strict_types demo_state 1 ''x'' (prop_rw ''x'') 2 ''y''
               (prop_rw ''y'') G_BINDING_BIDIRECTIONAL (Some decline_negative)
               (Some decline_negative) None None"
  have r1: "bindings st1 1 = Some ?cb" using b(2) by simp
  have cbf: "\<not> is_frozen ?cb" "source_pspec ?cb = Some (prop_rw ''x'')"
    "target_pspec ?cb = Some (prop_rw ''y'')"
    "transform_s2t ?cb = Some decline_negative" "transform_t2s ?cb = Some decline_negative"
    by (simp_all add: constructed_binding_def)
  have names: "pspec_name (prop_rw ''x'') = source_property ?cb"
    "pspec_name (prop_rw ''y'') = target_property ?cb"
    by (simp_all add: constructed_binding_def prop_rw_def)
  let ?A = "property_store st1 1 ''x'' (- 5)"
  let ?B = "property_store st1 2 ''y'' (- 5)"
  let ?A' = "property_store ?A 1 ''x'' 7"
  have rA: "bindings ?A 1 = Some ?cb" and rB: "bindings ?B 1 = Some ?cb"
    and rA': "bindings ?A' 1 = Some ?cb"
    using r1 by simp_all
  have bad_s: "\<not> fst (decline_negative
        (g_object_get_property ?A (source ?cb) (pspec_name (prop_rw ''x''))
           (g_value_init (value_type (prop_rw ''x''))))
        (g_value_init (value_type (prop_rw ''y''))) (transform_data ?cb))"
    using b(5)
    by (simp add: decline_negative_def g_object_get_property_def constructed_binding_def
        prop_rw_def)
  have bad_t: "\<not> fst (decline_negative
        (g_object_get_property ?B (target ?cb) (pspec_name (prop_rw ''y''))
           (g_value_init (value_type (prop_rw ''y''))))
        (g_value_init (value_type (prop_rw ''x''))) (transform_data ?cb))"
    using b(6)
    by (simp add: decline_negative_def g_object_get_property_def constructed_binding_def
        prop_rw_def)
  have good: "decline_negative
        (g_object_get_property ?A' (source ?cb) (pspec_name (prop_rw ''x''))
           (g_value_init (value_type (prop_rw ''x''))))
        (g_value_init (value_type (prop_rw ''y''))) (transform_data ?cb)
      = (True, \<lparr>g_type = 1, payload = 7\<rparr>)"
    using b(5)
    by (simp add: decline_negative_def g_object_get_property_def constructed_binding_def
        prop_rw_def g_value_init_def)
  note thA = failed_transform_leaves_state [OF rA cbf(1) cbf(2) cbf(3)]
  note thB = failed_transform_leaves_state [OF rB cbf(1) cbf(2) cbf(3)]
  from thA cbf(4) bad_s
  have c1: "on_source_notify (g_object_set_property (Suc 0)) ?A (prop_rw ''x'') 1 = Some ?A"
    by blast
  from thB cbf(5) bad_t
  have c2: "on_target_notify (g_object_set_property (Suc 0)) ?B (prop_rw ''y'') 1 = Some ?B"
    by blast
  let ?F = "binding_update ?A' 1 (\<lambda>b. b\<lparr>is_frozen := True\<rparr>)"
  have nested: "g_object_set_property (Suc 0) ?F (Some 2) ''y'' \<lparr>g_type = 1, payload = 7\<rparr>
      = Some (property_store ?F 2 ''y'' 7)"
  proof -
    have f: "g_object_class_find_property ?F (Some 2) ''y'' = Some (prop_rw ''y'')"
      using b(6) by simp
    have "bindings ?F 1 = Some (?cb\<lparr>is_frozen := True\<rparr>)"
      using r1 by (simp add: bindings_binding_update)
    from guarded_inert [OF this]
    have "\<forall>h \<in> set (notify_handlers ?F 2). inert ?F (pspec_name (prop_rw ''y'')) h"
      using b(4) by (simp add: demo_state_def target_handler_def G_BINDING_BIDIRECTIONAL_def)
    from write_inert [OF f this, of 0 "\<lparr>g_type = 1, payload = 7\<rparr>"] show ?thesis
      by (simp add: prop_rw_def del: g_object_set_property.simps)
  qed
  from thA [THEN conjunct2, THEN conjunct2, THEN conjunct1, rule_format,
      OF rA' cbf(4) names(1) good, of "g_object_set_property (Suc 0)"]
  have c3: "on_source_notify (g_object_set_property (Suc 0)) ?A' (prop_rw ''x'') 1
        = Some (property_store ?A' 2 ''y'' 7)"
    using nested thaw_store [OF rA' cbf(1), of 2 "''y''" 7]
    by (simp add: constructed_binding_def prop_rw_def g_param_value_validate_def
        del: g_object_set_property.simps)
  have e1: "g_object_set_property (Suc (Suc 0)) st1 (Some 1) ''x'' \<lparr>g_type = 1, payload = - 5\<rparr>
        = Some ?A"
    using forward_run [OF bind demo_fresh demo_inert demo_find refl refl refl,
        of 0 "\<lparr>g_type = 1, payload = - 5\<rparr>"]
    by (simp add: decline_negative_def del: g_object_set_property.simps)
  have e2: "g_object_set_property (Suc (Suc 0)) ?A (Some 1) ''x'' \<lparr>g_type = 1, payload = 7\<rparr>
        = Some (property_store ?A' 2 ''y'' 7)"
    using forward_run [OF bind demo_fresh demo_inert demo_find, of ?A 0
        "\<lparr>g_type = 1, payload = 7\<rparr>"]
    by (simp add: decline_negative_def prop_rw_def g_value_init_def
        del: g_object_set_property.simps)
  from bind r1 cbf e1 c1 c2 c3 e2 show ?thesis by blast
qed




section \<open>Teardown and the registry\<close>

text \<open>
  When an endpoint object is destroyed, a Link that is registered with the destruction
  hook of the object and on which more references are held than it has registrations
  there stays allocated: its source and target accessors return \<^verbatim>\<open>NULL\<close>, and its
  property-name and flags accessors return what the Link held before.
\<close>

lemma held_link_after_destruction:
  assumes b: "bindings st binding = Some r"
    and registered: "binding \<in> set (weak_refs st ob)"
    and held: "count_list (weak_refs st ob) binding < ref_count r"
    and live: "object_class st ob \<noteq> None"
    and run: "destroy_object st ob = Some st'"
  shows "bindings st' binding \<noteq> None
       \<and> g_binding_get_source st' binding = None
       \<and> g_binding_get_target st' binding = None
       \<and> g_binding_get_source_property st' binding = Some (source_property r)
       \<and> g_binding_get_target_property st' binding = Some (target_property r)
       \<and> g_binding_get_flags st' binding = flags r"
proof -
  from run live obtain st1 where n: "weak_refs_notify st (weak_refs st ob) ob = Some st1"
    and st': "bindings st' = bindings st1"
    by (auto simp: destroy_object_def split: option.splits)
  from weak_refs_notify_binding [OF n b held] registered st' show ?thesis
    by (auto simp: g_binding_get_source_def g_binding_get_target_def
        g_binding_get_source_property_def g_binding_get_target_property_def
        g_binding_get_flags_def)
qed

text \<open>
  Claim C10 says that after an endpoint object has been destroyed, a Link on which the
  caller still holds its own reference answers its property-name and flags accessors with
  the values fixed at construction. \<^const>\<open>g_binding_constructed\<close> registers
  \<^const>\<open>weak_unbind\<close> once for the source and once for the target, so a Link whose source
  and target are the same object is registered twice with that object. In the concrete
  configuration, with a bidirectional Link between \<^verbatim>\<open>x\<close> and \<^verbatim>\<open>z\<close> of object 1
  and a second reference taken by the caller, destroying object 1 runs
  \<^const>\<open>weak_unbind\<close> twice and each run drops a reference: the Link is finalized and
  freed under the reference of the caller, and the accessors find no Link any more.
\<close>

theorem same_object_link_freed_under_reference:
  "\<exists>st1. g_object_bind_property strict_types demo_state (Some 1) ''x'' (Some 1) ''z''
            G_BINDING_BIDIRECTIONAL = Some (Inr 1, st1)
     \<and> weak_refs st1 1 = [1, 1]
     \<and> (\<exists>r. bindings (g_object_ref st1 1) 1 = Some r \<and> ref_count r = 2)
     \<and> g_binding_get_source_property (g_object_ref st1 1) 1 = Some ''x''
     \<and> g_binding_get_target_property (g_object_ref st1 1) 1 = Some ''z''
     \<and> g_binding_get_flags (g_object_ref st1 1) 1 = G_BINDING_BIDIRECTIONAL
     \<and> (\<exists>st2. destroy_object (g_object_ref st1 1) 1 = Some st2
           \<and> bindings st2 1 = None
           \<and> g_binding_get_source_property st2 1 = None
           \<and> g_binding_get_target_property st2 1 = None
           \<and> g_binding_get_flags st2 1 = G_BINDING_DEFAULT)"
  by (simp add: eval_defs teardown_defs g_list_members.simps g_list_find_cell.simps
      g_binding_get_source_property_def g_binding_get_target_property_def
      g_binding_get_flags_def)

theorem same_object_link_freed_under_reference_witness:
  "\<exists>st1 st2 r.
      g_object_bind_property strict_types demo_state (Some 1) ''x'' (Some 1) ''z''
        G_BINDING_BIDIRECTIONAL = Some (Inr 1, st1)
    \<and> bindings (g_object_ref st1 1) 1 = Some r \<and> ref_count r = 2
    \<and> g_binding_get_source_property (g_object_ref st1 1) 1 = Some ''x''
    \<and> destroy_object (g_object_ref st1 1) 1 = Some st2
    \<and> bindings st2 1 = None
    \<and> g_binding_get_source_property st2 1 = None"
  using same_object_link_freed_under_reference by blast

text \<open>
  Claim C2 says that teardown removes the Link from the surviving endpoint's registry
  entry. In the concrete configuration, after a bidirectional bind of object 1's
  \<^verbatim>\<open>x\<close> to object 2's \<^verbatim>\<open>y\<close> with user data 42 and destroy notification 7,
  destroying object 1 disconnects the handler on object 2, drops object 2's weak
  reference, calls the destroy notification once and frees the Link; but the list cell is
  freed while object 2's datum still points to it, so object 2's registry entry is a
  pointer to a cell that is no longer allocated.
\<close>

theorem teardown_leaves_dangling_entry:
  "\<exists>st1. g_object_bind_property_full strict_types demo_state (Some 1) ''x'' (Some 2) ''y''
             G_BINDING_BIDIRECTIONAL None None (Some 42) (Some 7) = Some (Inr 1, st1)
     \<and> registry_entry st1 2 = Some [1]
     \<and> map handler_data (notify_handlers st1 2) = [1]
     \<and> (\<exists>st2. destroy_object st1 1 = Some st2
          \<and> notify_handlers st2 2 = []
          \<and> weak_refs st2 2 = []
          \<and> bindings st2 1 = None
          \<and> destroy_notified st2 = [(7, Some 42)]
          \<and> qdata_gbinding st2 2 = Some 2 \<and> glist_cells st2 2 = None
          \<and> registry_entry st2 2 = None)"
  by (simp add: eval_defs teardown_defs g_list_members.simps g_list_find_cell.simps)

theorem teardown_leaves_dangling_entry_witness:
  "\<exists>st1 st2 l.
      g_object_bind_property_full strict_types demo_state (Some 1) ''x'' (Some 2) ''y''
        G_BINDING_BIDIRECTIONAL None None (Some 42) (Some 7) = Some (Inr 1, st1)
    \<and> destroy_object st1 1 = Some st2
    \<and> qdata_gbinding st2 2 = Some l \<and> glist_cells st2 l = None"
  using teardown_leaves_dangling_entry by blast

text \<open>
  Claim C6 says that after every successful bind the Link is a member of both objects'
  registry entries, also when an object already has a Link, and that unbinding removes
  it. In the concrete configuration, after binding object 1's \<^verbatim>\<open>x\<close> to object 2's
  \<^verbatim>\<open>y\<close> (Link 1), binding object 1's \<^verbatim>\<open>z\<close> to object 3's \<^verbatim>\<open>w\<close> succeeds
  (Link 2) and object 1's registry entry still has Link 1 as its only member. Dropping
  Link 2 afterwards leaves object 3's datum pointing to a freed cell.
\<close>

theorem second_link_missing_from_registry:
  "\<exists>st1. g_object_bind_property strict_types demo_state (Some 1) ''x'' (Some 2) ''y''
            G_BINDING_DEFAULT = Some (Inr 1, st1)
     \<and> registry_entry st1 1 = Some [1] \<and> registry_entry st1 2 = Some [1]
     \<and> (\<exists>st2. g_object_bind_property strict_types st1 (Some 1) ''z'' (Some 3) ''w''
                 G_BINDING_DEFAULT = Some (Inr 2, st2)
          \<and> registry_entry st2 1 = Some [1] \<and> registry_entry st2 3 = Some [2]
          \<and> (\<exists>st3. g_object_unref st2 2 = Some st3
                \<and> bindings st3 2 = None
                \<and> registry_entry st3 1 = Some [1]
                \<and> qdata_gbinding st3 3 = Some 4 \<and> glist_cells st3 4 = None
                \<and> registry_entry st3 3 = None))"
  by (simp add: eval_defs teardown_defs g_list_members.simps g_list_find_cell.simps)

theorem second_link_missing_from_registry_witness:
  "\<exists>st1 st2.
      g_object_bind_property strict_types demo_state (Some 1) ''x'' (Some 2) ''y''
        G_BINDING_DEFAULT = Some (Inr 1, st1)
    \<and> g_object_bind_property strict_types st1 (Some 1) ''z'' (Some 3) ''w''
        G_BINDING_DEFAULT = Some (Inr 2, st2)
    \<and> registry_entry st2 1 = Some [1]"
  using second_link_missing_from_registry by blast

end
